theory Spec2Isabelle
  imports Complex_Main
begin

section \<open>Values shared by all components\<close>

text \<open>
  The TypeScript sources are embedded shallowly.  Counters (attempt numbers, failure
  counts, thresholds) are natural numbers, timestamps are integers (milliseconds since
  the epoch, what \<open>Date.getTime()\<close> returns), and the remaining \<open>number\<close>s (delays,
  rates, token counts) are idealised as reals: IEEE rounding, \<open>NaN\<close> and the infinities
  of JavaScript doubles are outside the model.
\<close>

text \<open>
  \<open>new Date(t)\<close> keeps the integral part of a (finite, in-range) time value: the
  language's \<open>TimeClip\<close> truncates towards zero.
\<close>

definition new_Date :: "real \<Rightarrow> int" where
  "new_Date t = (if 0 \<le> t then \<lfloor>t\<rfloor> else \<lceil>t\<rceil>)"

section \<open>Data model\<close>

text \<open>\<open>CircuitBreakerState\<close> (\<open>push-core/src/circuit-breaker/CircuitBreaker.ts\<close>).\<close>

datatype CircuitBreakerState = Closed | Open | HalfOpen

text \<open>
  The error classes of \<open>types/errors\<close> (found in \<open>test-project/setup.sh\<close>), each
  with its message.  \<open>Error\<close> is the
  language's plain error.  Of the \<open>details\<close> object the model keeps the name of the
  offending field of a \<open>ValidationError\<close> and the state, failure count and last failure
  time a \<open>CircuitBreakerOpenError\<close> carries.
\<close>

datatype error =
    Error string
  | ConfigurationError string
  | ValidationError string string
  | ProviderError string
  | StorageError string
  | CircuitBreakerOpenError string CircuitBreakerState nat "int option"
  | RateLimitError string

fun message :: "error \<Rightarrow> string" where
  "message (Error m) = m"
| "message (ConfigurationError m) = m"
| "message (ValidationError m f) = m"
| "message (ProviderError m) = m"
| "message (StorageError m) = m"
| "message (CircuitBreakerOpenError m s n t) = m"
| "message (RateLimitError m) = m"

text \<open>
  \<open>types/subscription\<close> (\<open>unnamed/part_010\<close>).  A string the code tests for presence (\<open>!x\<close>) is a
  \<open>string option\<close>: \<open>None\<close> is \<open>undefined\<close>, and the empty string is falsy as well.
  Field \<open>id\<close> is \<open>sub_id\<close> here; \<open>metadata\<close> is kept as an opaque string.
\<close>

definition truthy :: "string option \<Rightarrow> bool" where
  "truthy s = (case s of None \<Rightarrow> False | Some v \<Rightarrow> v \<noteq> [])"

datatype SubscriptionStatus = active | blocked | expired

record SubscriptionKeys =
  p256dh :: "string option"
  auth :: "string option"

record Subscription =
  sub_id :: string
  endpoint :: "string option"
  keys :: "SubscriptionKeys option"
  userId :: "string option"
  createdAt :: int
  updatedAt :: int
  lastUsedAt :: "int option"
  failedCount :: nat
  status :: SubscriptionStatus
  expiresAt :: "int option"
  metadata :: "string option"

text \<open>
  \<open>Partial<Subscription>\<close> as the storage adapters read it: a field that is \<open>None\<close>
  is not provided.  (\<open>id\<close>, \<open>createdAt\<close> and \<open>updatedAt\<close> are never read from it.)
\<close>

record SubscriptionUpdate =
  u_endpoint :: "string option"
  u_keys :: "SubscriptionKeys option"
  u_userId :: "string option"
  u_lastUsedAt :: "int option"
  u_failedCount :: "nat option"
  u_status :: "SubscriptionStatus option"
  u_expiresAt :: "int option"
  u_metadata :: "string option"

definition noUpdate :: SubscriptionUpdate where
  "noUpdate = \<lparr>u_endpoint = None, u_keys = None, u_userId = None, u_lastUsedAt = None,
      u_failedCount = None, u_status = None, u_expiresAt = None, u_metadata = None\<rparr>"

text \<open>
  \<open>push-core/src/types/notification.ts\<close>.  The payload's \<open>data\<close> and \<open>actions\<close> are opaque to the
  core and left out.
\<close>

record NotificationPayload =
  title :: string
  body :: string
  icon :: "string option"
  badge :: "string option"
  tag :: "string option"
  requireInteraction :: "bool option"

record SendOptions =
  ttl :: "int option"
  urgency :: "string option"
  topic :: "string option"

text \<open>
  \<open>types/results\<close> (\<open>unnamed/part_010\<close>).  Fields of \<open>ProviderResult\<close> carry the prefix \<open>p_\<close>, those of
  \<open>SendResult\<close> the prefix \<open>s_\<close>, those of \<open>RetryEntry\<close> the prefix \<open>r_\<close>.
\<close>

record ProviderResult =
  p_success :: bool
  p_statusCode :: "int option"
  p_error :: "error option"
  p_shouldRetry :: bool
  p_retryAfter :: "real option"

record SendResult =
  s_success :: bool
  s_subscriptionId :: string
  s_error :: "error option"
  s_enqueued :: "bool option"

record RetryEntry =
  r_id :: string
  r_subscriptionId :: string
  r_payload :: NotificationPayload
  r_attempt :: nat
  r_nextRetryAt :: int
  r_lastError :: "string option"
  r_createdAt :: int

section \<open>Effects\<close>

text \<open>
  An \<open>async\<close> function is a function of the world it runs in: it returns what its
  promise settles to, and the world it leaves.  A promise resolves with a value, rejects
  with an error, or never settles (\<open>Hangs\<close>: a collaborator that never answers).
  Synchronous calls that may throw use the same type.
\<close>

datatype 'a outcome = Returns 'a | Throws error | Hangs

type_synonym ('a, 'w) action = "'w \<Rightarrow> 'a outcome \<times> 'w"

definition resolve :: "'a \<Rightarrow> ('a, 'w) action" where
  "resolve a w = (Returns a, w)"

definition reject :: "error \<Rightarrow> ('a, 'w) action" where
  "reject e w = (Throws e, w)"

text \<open>\<open>const a = await m; ... f a\<close>: sequencing stops at a rejection or a hang.\<close>

definition andThen :: "('a, 'w) action \<Rightarrow> ('a \<Rightarrow> ('b, 'w) action) \<Rightarrow> ('b, 'w) action" where
  "andThen m f w =
     (case m w of
        (Returns a, w') \<Rightarrow> f a w'
      | (Throws e, w') \<Rightarrow> (Throws e, w')
      | (Hangs, w') \<Rightarrow> (Hangs, w'))"

text \<open>\<open>try { m } catch (e) { h e }\<close>.\<close>

definition tryCatch :: "('a, 'w) action \<Rightarrow> (error \<Rightarrow> ('a, 'w) action) \<Rightarrow> ('a, 'w) action" where
  "tryCatch m h w =
     (case m w of
        (Returns a, w') \<Rightarrow> (Returns a, w')
      | (Throws e, w') \<Rightarrow> h e w'
      | (Hangs, w') \<Rightarrow> (Hangs, w'))"

text \<open>An action on the world, run by an object that has state \<open>'c\<close> of its own.\<close>

definition inWorld :: "('a, 'w) action \<Rightarrow> ('a, 'c \<times> 'w) action" where
  "inWorld m = (\<lambda>(c, w). case m w of (r, w') \<Rightarrow> (r, (c, w')))"

section \<open>Token bucket rate limiter\<close>

text \<open>
  \<open>push-core/src/rate-limiter/TokenBucketRateLimiter.ts\<close>.  Every method reads the clock once
  (\<open>new Date()\<close> in \<open>refill\<close>); that reading is the parameter \<open>now\<close>.
\<close>

record TokenBucketRateLimiter =
  capacity :: real
  refillRate :: real
  tokens :: real
  lastRefill :: int

definition new_TokenBucketRateLimiter :: "int \<Rightarrow> real \<Rightarrow> real \<Rightarrow> TokenBucketRateLimiter" where
  "new_TokenBucketRateLimiter now capacity' refillRate' =
     \<lparr>capacity = capacity', refillRate = refillRate', tokens = capacity', lastRefill = now\<rparr>"

definition refill :: "int \<Rightarrow> TokenBucketRateLimiter \<Rightarrow> TokenBucketRateLimiter" where
  "refill now b =
     (let elapsed = real_of_int (now - lastRefill b) / 1000;
          tokensToAdd = elapsed * refillRate b
      in b\<lparr>tokens := min (capacity b) (tokens b + tokensToAdd), lastRefill := now\<rparr>)"

definition tryAcquire ::
    "int \<Rightarrow> real \<Rightarrow> TokenBucketRateLimiter \<Rightarrow> bool \<times> TokenBucketRateLimiter" where
  "tryAcquire now n b =
     (let b1 = refill now b
      in if tokens b1 \<ge> n then (True, b1\<lparr>tokens := tokens b1 - n\<rparr>) else (False, b1))"

definition getAvailableTokens ::
    "int \<Rightarrow> TokenBucketRateLimiter \<Rightarrow> int \<times> TokenBucketRateLimiter" where
  "getAvailableTokens now b = (let b1 = refill now b in (\<lfloor>tokens b1\<rfloor>, b1))"

section \<open>Circuit breaker\<close>

text \<open>
  \<open>CircuitBreakerConfig\<close> of \<open>types/configuration\<close> (\<open>unnamed/part_011\<close>), and the
  \<open>Partial<CircuitBreakerConfig>\<close> the constructor merges over its defaults.  A field of
  the partial configuration is either absent (\<open>None\<close>) or a number; an object that has
  the key with the value \<open>undefined\<close>, which the spread \<open>{...DEFAULT_CONFIG, ...config}\<close>
  would copy over the default, is outside the model, where every breaker has its three
  numbers.
\<close>

record CircuitBreakerConfig =
  failureThreshold :: nat
  resetTimeout :: int
  halfOpenMaxAttempts :: nat

record PartialCircuitBreakerConfig =
  failureThreshold_opt :: "nat option"
  resetTimeout_opt :: "int option"
  halfOpenMaxAttempts_opt :: "nat option"

definition DEFAULT_CONFIG :: CircuitBreakerConfig where
  "DEFAULT_CONFIG = \<lparr>failureThreshold = 5, resetTimeout = 60000, halfOpenMaxAttempts = 3\<rparr>"

text \<open>\<open>push-core/src/circuit-breaker/CircuitBreaker.ts\<close>.  The private field \<open>config\<close> is \<open>cb_config\<close>.\<close>

record CircuitBreaker =
  state :: CircuitBreakerState
  failureCount :: nat
  successCount :: nat
  lastFailureTime :: "int option"
  cb_config :: CircuitBreakerConfig

definition new_CircuitBreaker :: "PartialCircuitBreakerConfig option \<Rightarrow> CircuitBreaker" where
  "new_CircuitBreaker cfg =
     \<lparr>state = Closed, failureCount = 0, successCount = 0, lastFailureTime = None,
      cb_config =
        (case cfg of
           None \<Rightarrow> DEFAULT_CONFIG
         | Some c \<Rightarrow>
             \<lparr>failureThreshold =
                (case failureThreshold_opt c of
                   None \<Rightarrow> failureThreshold DEFAULT_CONFIG | Some v \<Rightarrow> v),
              resetTimeout =
                (case resetTimeout_opt c of
                   None \<Rightarrow> resetTimeout DEFAULT_CONFIG | Some v \<Rightarrow> v),
              halfOpenMaxAttempts =
                (case halfOpenMaxAttempts_opt c of
                   None \<Rightarrow> halfOpenMaxAttempts DEFAULT_CONFIG | Some v \<Rightarrow> v)\<rparr>)\<rparr>"

definition shouldAttemptReset :: "int \<Rightarrow> CircuitBreaker \<Rightarrow> bool" where
  "shouldAttemptReset now cb =
     (case lastFailureTime cb of
        None \<Rightarrow> False
      | Some t \<Rightarrow> now - t \<ge> resetTimeout (cb_config cb))"

definition onSuccess :: "CircuitBreaker \<Rightarrow> CircuitBreaker" where
  "onSuccess cb =
     (if state cb = HalfOpen
      then (let cb1 = cb\<lparr>successCount := successCount cb + 1\<rparr>
            in if successCount cb1 \<ge> halfOpenMaxAttempts (cb_config cb1)
               then cb1\<lparr>state := Closed, failureCount := 0, successCount := 0,
                        lastFailureTime := None\<rparr>
               else cb1)
      else if state cb = Closed then cb\<lparr>failureCount := 0\<rparr>
      else cb)"

definition onFailure :: "int \<Rightarrow> CircuitBreaker \<Rightarrow> CircuitBreaker" where
  "onFailure now cb =
     (let cb1 = cb\<lparr>failureCount := failureCount cb + 1, lastFailureTime := Some now\<rparr>
      in if failureCount cb1 \<ge> failureThreshold (cb_config cb1)
         then cb1\<lparr>state := Open, successCount := 0\<rparr>
         else cb1)"

definition reset :: "CircuitBreaker \<Rightarrow> CircuitBreaker" where
  "reset cb = cb\<lparr>state := Closed, failureCount := 0, successCount := 0, lastFailureTime := None\<rparr>"

text \<open>
  The check at the head of \<open>execute\<close>: in state \<open>open\<close> it either moves the breaker to
  \<open>half-open\<close> or throws; in the other states it lets the call through.  \<open>now\<close> is the
  \<open>Date.now()\<close> of \<open>shouldAttemptReset\<close>.
\<close>

definition admit :: "int \<Rightarrow> CircuitBreaker \<Rightarrow> error + CircuitBreaker" where
  "admit now cb =
     (if state cb = Open
      then (if shouldAttemptReset now cb
            then Inr (cb\<lparr>state := HalfOpen, successCount := 0\<rparr>)
            else Inl (CircuitBreakerOpenError ''Circuit breaker is open''
                        (state cb) (failureCount cb) (lastFailureTime cb)))
      else Inr cb)"

text \<open>
  \<open>execute\<close>.  The wrapped function \<open>fn\<close> acts on a world \<open>'w\<close> whose clock is read by
  \<open>clock\<close>; the time of a failure is the clock's reading when \<open>fn\<close> has thrown.  When the
  breaker rejects, \<open>fn\<close> is not applied and the world is returned as it was.  Calls are
  taken one at a time: the check, the wrapped function and the bookkeeping of one call
  are not interleaved with those of another.
\<close>

definition execute ::
    "('w \<Rightarrow> int) \<Rightarrow> ('a, 'w) action \<Rightarrow> ('a, CircuitBreaker \<times> 'w) action" where
  "execute clock fn = (\<lambda>(cb, w).
     case admit (clock w) cb of
       Inl e \<Rightarrow> (Throws e, (cb, w))
     | Inr cb1 \<Rightarrow>
         (case fn w of
            (Returns v, w') \<Rightarrow> (Returns v, (onSuccess cb1, w'))
          | (Throws e, w') \<Rightarrow> (Throws e, (onFailure (clock w') cb1, w'))
          | (Hangs, w') \<Rightarrow> (Hangs, (cb1, w'))))"

text \<open>A run of calls to \<open>execute\<close>, one after the other, their results discarded.\<close>

fun executeAll ::
    "('w \<Rightarrow> int) \<Rightarrow> ('a, 'w) action list \<Rightarrow> CircuitBreaker \<times> 'w \<Rightarrow> CircuitBreaker \<times> 'w" where
  "executeAll clock [] s = s"
| "executeAll clock (fn # fns) s = executeAll clock fns (snd (execute clock fn s))"

text \<open>
  The histories of a breaker: the steps that change its fields, in any order (so also
  the interleavings of overlapping calls to \<open>execute\<close>).
\<close>

datatype CircuitBreakerStep = Admit int | Success | Failure int | Reset

fun step :: "CircuitBreakerStep \<Rightarrow> CircuitBreaker \<Rightarrow> CircuitBreaker" where
  "step (Admit now) cb = (case admit now cb of Inl e \<Rightarrow> cb | Inr cb1 \<Rightarrow> cb1)"
| "step Success cb = onSuccess cb"
| "step (Failure now) cb = onFailure now cb"
| "step Reset cb = reset cb"

definition history :: "CircuitBreakerStep list \<Rightarrow> CircuitBreaker \<Rightarrow> CircuitBreaker" where
  "history steps cb = fold step steps cb"


definition returns :: "('a, 'w) action \<Rightarrow> bool" where
  "returns fn = (\<forall>w. \<exists>v w'. fn w = (Returns v, w'))"

text \<open>The breaker with every counter cleared, as \<open>reset\<close> leaves it.\<close>

definition cleared :: "CircuitBreaker \<Rightarrow> bool" where
  "cleared cb =
     (state cb = Closed \<and> failureCount cb = 0 \<and> successCount cb = 0 \<and>
      lastFailureTime cb = None)"

text \<open>
  The invariant of the breaker: outside state \<open>closed\<close> the failure counter has reached
  the threshold and the time of the last failure is recorded.
\<close>

definition tripped :: "CircuitBreaker \<Rightarrow> bool" where
  "tripped cb =
     (state cb = Closed \<or>
      (failureThreshold (cb_config cb) \<le> failureCount cb \<and> lastFailureTime cb \<noteq> None))"

section \<open>Retry policy and retry decision\<close>

text \<open>\<open>RetryPolicy\<close> of \<open>types/configuration\<close> (\<open>unnamed/part_011\<close>).\<close>

record RetryPolicy =
  maxRetries :: nat
  baseDelay :: real
  backoffFactor :: real
  maxDelay :: real
  jitter :: bool

text \<open>
  \<open>calculateNextRetry\<close> of \<open>retry/calculateNextRetry\<close> (found in
  \<open>push-storage-postgres/src/index.ts\<close>).  The two reads of the environment are parameters:
  \<open>now\<close> is the value of \<open>Date.now()\<close> and \<open>rnd\<close> the value of \<open>Math.random()\<close>
  (consulted only when jitter is enabled).  \<open>retryAfter\<close> is in seconds.  The delay
  computed after the early return is named \<open>backoffDelay\<close> here.
\<close>

definition backoffDelay :: "real \<Rightarrow> nat \<Rightarrow> RetryPolicy \<Rightarrow> real" where
  "backoffDelay rnd attempt policy =
     (let delay0 = baseDelay policy * backoffFactor policy ^ attempt;
          delay1 = min delay0 (maxDelay policy)
      in if jitter policy
         then (let jitterAmount = delay1 * 0.25;
                   jitterOffset = (rnd * 2 - 1) * jitterAmount
               in max 0 (delay1 + jitterOffset))
         else delay1)"

definition calculateNextRetry ::
    "int \<Rightarrow> real \<Rightarrow> nat \<Rightarrow> RetryPolicy \<Rightarrow> real option \<Rightarrow> int" where
  "calculateNextRetry now rnd attempt policy retryAfter =
     (case retryAfter of
        Some ra \<Rightarrow>
          if ra > 0 then new_Date (real_of_int now + ra * 1000)
          else new_Date (real_of_int now + backoffDelay rnd attempt policy)
      | None \<Rightarrow> new_Date (real_of_int now + backoffDelay rnd attempt policy))"

text \<open>\<open>shouldRetry\<close> (\<open>unnamed/part_001\<close>).  A status code of \<open>0\<close> is falsy.\<close>

definition shouldRetry :: "ProviderResult \<Rightarrow> nat \<Rightarrow> nat \<Rightarrow> bool" where
  "shouldRetry result attempt maxRetries' =
     (if attempt \<ge> maxRetries' then False
      else if \<not> p_shouldRetry result then False
      else if (case p_statusCode result of
                 None \<Rightarrow> False
               | Some c \<Rightarrow> c \<noteq> 0 \<and> c \<ge> 500 \<and> c < 600) then True
      else if p_statusCode result = Some 429 then True
      else p_shouldRetry result)"

section \<open>The world and the adapter interfaces\<close>

text \<open>
  The SQLite database of \<open>push-storage-sqlite\<close>: table \<open>subscriptions\<close> keyed by
  \<open>id\<close>, table \<open>retry_queue\<close>, and the adapter's \<open>closed\<close> flag.  A row of
  \<open>subscriptions\<close> holds the fields of a \<open>Subscription\<close>.
\<close>

record database =
  subscriptions :: "string \<rightharpoonup> Subscription"
  retry_queue :: "RetryEntry list"
  closed :: bool

text \<open>
  The world an operation runs in: the wall clock (\<open>Date.now()\<close>, \<open>new Date()\<close>), the
  next values of \<open>Math.random()\<close> and \<open>randomUUID()\<close>, the database, and whatever else is
  outside the process (\<open>'x\<close>: the push service, loggers, metric sinks).  Time passes,
  and the random sources move on, only while a collaborator acts; \<open>latencies\<close> are the
  milliseconds that the coming calls to the SQLite adapter take, one number for each
  \<open>await\<close> of one of its methods.
\<close>

record 'x world =
  currentTime :: int
  latencies :: "nat list"
  randomValue :: real
  nextUUID :: string
  db :: database
  outside :: 'x

definition Date_now :: "(int, 'x world) action" where
  "Date_now w = (Returns (currentTime w), w)"

text \<open>
  The clock after the next awaited call: it has moved on by the next latency, and
  stands still once none is left.  \<open>awaited\<close> is an \<open>async\<close> method of the SQLite adapter
  as its caller sees it: however the method ends, the clock has moved on.
\<close>

definition elapse :: "'x world \<Rightarrow> 'x world" where
  "elapse w =
     (case latencies w of
        [] \<Rightarrow> w
      | d # ds \<Rightarrow> w\<lparr>currentTime := currentTime w + int d, latencies := ds\<rparr>)"

definition awaited :: "('a, 'x world) action \<Rightarrow> ('a, 'x world) action" where
  "awaited m w = (case m w of (r, w') \<Rightarrow> (r, elapse w'))"

definition randomUUID :: "(string, 'x world) action" where
  "randomUUID w = (Returns (nextUUID w), w)"

text \<open>\<open>calculateNextRetry\<close> with its two reads of the environment.\<close>

definition calculateNextRetryAt ::
    "nat \<Rightarrow> RetryPolicy \<Rightarrow> real option \<Rightarrow> (int, 'x world) action" where
  "calculateNextRetryAt attempt policy retryAfter w =
     (Returns (calculateNextRetry (currentTime w) (randomValue w) attempt policy retryAfter), w)"

text \<open>
  \<open>types/adapters\<close> (found in \<open>test-project/README.md\<close>): of each interface, the methods the orchestrator and the worker
  call.  A \<open>ProviderAdapter\<close> is its \<open>send\<close>, a \<open>RateLimiter\<close> its \<open>acquire()\<close>.
\<close>

record 'w StorageAdapter =
  getSubscriptionById :: "string \<Rightarrow> (Subscription option, 'w) action"
  updateSubscription :: "string \<Rightarrow> SubscriptionUpdate \<Rightarrow> (Subscription, 'w) action"
  enqueueRetry :: "RetryEntry \<Rightarrow> (unit, 'w) action"
  ackRetry :: "string \<Rightarrow> (unit, 'w) action"

type_synonym 'w ProviderAdapter =
  "Subscription \<Rightarrow> NotificationPayload \<Rightarrow> SendOptions \<Rightarrow> (ProviderResult, 'w) action"

type_synonym 'w RateLimiter = "(unit, 'w) action"

record 'w MetricsAdapter =
  increment :: "string \<Rightarrow> (unit, 'w) action"
  gauge :: "string \<Rightarrow> int \<Rightarrow> (unit, 'w) action"

text \<open>
  \<open>types/configuration\<close> (\<open>unnamed/part_011\<close>).  The hooks carry the prefix \<open>hook_\<close>; a
  \<open>Partial<RetryPolicy>\<close> has every field optional.  Of \<open>PushConfiguration\<close> the fields
  \<open>circuitBreaker\<close> and \<open>batchConfig\<close>, which only \<open>configure\<close> and \<open>batchSend\<close> read, are
  left out.
\<close>

record 'w LifecycleHooks =
  hook_onSend :: "(Subscription \<Rightarrow> NotificationPayload \<Rightarrow> (unit, 'w) action) option"
  hook_onSuccess :: "(Subscription \<Rightarrow> ProviderResult \<Rightarrow> (unit, 'w) action) option"
  hook_onFailure :: "(Subscription \<Rightarrow> error \<Rightarrow> (unit, 'w) action) option"
  hook_onRetry :: "(Subscription \<Rightarrow> nat \<Rightarrow> (unit, 'w) action) option"

record VapidKeys =
  publicKey :: "string option"
  privateKey :: "string option"
  subject :: "string option"

record PartialRetryPolicy =
  maxRetries_opt :: "nat option"
  baseDelay_opt :: "real option"
  backoffFactor_opt :: "real option"
  maxDelay_opt :: "real option"
  jitter_opt :: "bool option"

record 'w PushConfiguration =
  vapidKeys :: "VapidKeys option"
  storageAdapter :: "'w StorageAdapter option"
  providerAdapter :: "'w ProviderAdapter option"
  retryPolicy :: "PartialRetryPolicy option"
  rateLimiter :: "'w RateLimiter option"
  metricsAdapter :: "'w MetricsAdapter option"
  lifecycleHooks :: "'w LifecycleHooks option"

section \<open>SQLite storage adapter\<close>

text \<open>
  \<open>SQLiteStorageAdapter\<close> (\<open>unnamed/part_003\<close>).  Errors of the database library are wrapped in
  \<open>StorageError\<close>s; the ones the model has are the closed connection, the missing
  subscription, and the constraints the schema declares on \<open>retry_queue\<close> (primary key
  \<open>id\<close>, foreign key \<open>subscription_id\<close>).  Every method is \<open>async\<close> and awaited by its
  caller, so each is \<open>awaited\<close>: the clock that \<open>updateSubscription\<close> reads for
  \<open>updated_at\<close>, after it has awaited \<open>getSubscriptionById\<close>, is not the clock its caller
  read before the call.
\<close>

definition ensureNotClosed :: "(unit, 'x world) action" where
  "ensureNotClosed w =
     (if closed (db w) then (Throws (StorageError ''Database connection is closed''), w)
      else (Returns (), w))"

text \<open>Reading a row back: a timestamp column that is null or \<open>0\<close> is falsy.\<close>

definition rowToSubscription :: "Subscription \<Rightarrow> Subscription" where
  "rowToSubscription row =
     row\<lparr>lastUsedAt := (case lastUsedAt row of
                           None \<Rightarrow> None
                         | Some t \<Rightarrow> if t \<noteq> 0 then Some t else None),
         expiresAt := (case expiresAt row of
                          None \<Rightarrow> None
                        | Some t \<Rightarrow> if t \<noteq> 0 then Some t else None),
         metadata := (if truthy (metadata row) then metadata row else None)\<rparr>"

definition sqlite_getSubscriptionById :: "string \<Rightarrow> (Subscription option, 'x world) action" where
  "sqlite_getSubscriptionById ident =
     awaited (andThen ensureNotClosed (\<lambda>_ w.
       (Returns (map_option rowToSubscription (subscriptions (db w) ident)), w)))"

text \<open>The \<open>UPDATE\<close> statement: \<open>updated_at\<close> always, the other columns when provided.\<close>

definition applyUpdate :: "int \<Rightarrow> SubscriptionUpdate \<Rightarrow> Subscription \<Rightarrow> Subscription" where
  "applyUpdate now updates row =
     row\<lparr>updatedAt := now,
         endpoint := (case u_endpoint updates of None \<Rightarrow> endpoint row | Some v \<Rightarrow> Some v),
         keys := (case u_keys updates of None \<Rightarrow> keys row | Some v \<Rightarrow> Some v),
         userId := (case u_userId updates of None \<Rightarrow> userId row | Some v \<Rightarrow> Some v),
         lastUsedAt := (case u_lastUsedAt updates of None \<Rightarrow> lastUsedAt row | Some v \<Rightarrow> Some v),
         failedCount := (case u_failedCount updates of None \<Rightarrow> failedCount row | Some v \<Rightarrow> v),
         status := (case u_status updates of None \<Rightarrow> status row | Some v \<Rightarrow> v),
         expiresAt := (case u_expiresAt updates of None \<Rightarrow> expiresAt row | Some v \<Rightarrow> Some v),
         metadata := (case u_metadata updates of None \<Rightarrow> metadata row | Some v \<Rightarrow> Some v)\<rparr>"

definition sqlite_updateSubscription ::
    "string \<Rightarrow> SubscriptionUpdate \<Rightarrow> (Subscription, 'x world) action" where
  "sqlite_updateSubscription ident updates =
     awaited (andThen ensureNotClosed (\<lambda>_.
     andThen (sqlite_getSubscriptionById ident) (\<lambda>current.
       case current of
         None \<Rightarrow> reject (StorageError (''Subscription not found: '' @ ident))
       | Some _ \<Rightarrow> (\<lambda>w.
           let rows = subscriptions (db w);
               rows' = (case rows ident of
                          None \<Rightarrow> rows
                        | Some row \<Rightarrow> rows(ident \<mapsto> applyUpdate (currentTime w) updates row));
               w' = w\<lparr>db := (db w)\<lparr>subscriptions := rows'\<rparr>\<rparr>
           in case sqlite_getSubscriptionById ident w' of
                (Returns (Some updated), w'') \<Rightarrow> (Returns updated, w'')
              | (Returns None, w'') \<Rightarrow>
                  (Throws (StorageError (''Failed to retrieve updated subscription: '' @ ident)),
                   w'')
              | (Throws e, w'') \<Rightarrow> (Throws e, w'')
              | (Hangs, w'') \<Rightarrow> (Hangs, w'')))))"

text \<open>
  The \<open>INSERT\<close> into \<open>retry_queue\<close>.  The adapter puts the message of the library's
  error after \<open>Failed to enqueue retry: \<close>; SQLite reports the primary key before the
  foreign key.
\<close>

definition sqlite_enqueueRetry :: "RetryEntry \<Rightarrow> (unit, 'x world) action" where
  "sqlite_enqueueRetry retry =
     awaited (andThen ensureNotClosed (\<lambda>_ w.
       if r_id retry \<in> r_id ` set (retry_queue (db w))
       then (Throws (StorageError
               (''Failed to enqueue retry: '' @ ''UNIQUE constraint failed: retry_queue.id'')), w)
       else if subscriptions (db w) (r_subscriptionId retry) = None
       then (Throws (StorageError
               (''Failed to enqueue retry: '' @ ''FOREIGN KEY constraint failed'')), w)
       else (Returns (), w\<lparr>db := (db w)\<lparr>retry_queue := retry_queue (db w) @ [retry]\<rparr>\<rparr>)))"

definition sqlite_ackRetry :: "string \<Rightarrow> (unit, 'x world) action" where
  "sqlite_ackRetry retryId =
     awaited (andThen ensureNotClosed (\<lambda>_ w.
       (Returns (),
        w\<lparr>db := (db w)\<lparr>retry_queue := filter (\<lambda>r. r_id r \<noteq> retryId) (retry_queue (db w))\<rparr>\<rparr>)))"

definition SQLiteStorageAdapter :: "'x world StorageAdapter" where
  "SQLiteStorageAdapter =
     \<lparr>getSubscriptionById = sqlite_getSubscriptionById,
      updateSubscription = sqlite_updateSubscription,
      enqueueRetry = sqlite_enqueueRetry,
      ackRetry = sqlite_ackRetry\<rparr>"

section \<open>Core orchestrator\<close>

text \<open>
  \<open>PushCore\<close> (\<open>unnamed/part_006\<close>).  The object's fields; the set \<open>inFlightOperations\<close> of promise
  handles, which only \<open>shutdown\<close> reads, is left out, and with it \<open>trackOperation\<close>.
\<close>

record 'w PushCore =
  config :: "'w PushConfiguration option"
  circuitBreaker :: "CircuitBreaker option"
  isShuttingDown :: bool

definition ensureNotShuttingDown :: "'w PushCore \<Rightarrow> unit outcome" where
  "ensureNotShuttingDown core =
     (if isShuttingDown core
      then Throws (Error ''Push notification system is shutting down. No new operations allowed.'')
      else Returns ())"

text \<open>
  \<open>validateConfiguration\<close>.  The source returns nothing and then reads \<open>this.config!\<close>;
  the model hands back the configuration and the storage adapter it found present.
\<close>

definition validateConfiguration ::
    "'w PushCore \<Rightarrow> ('w PushConfiguration \<times> 'w StorageAdapter) outcome" where
  "validateConfiguration core =
     (case config core of
        None \<Rightarrow> Throws (ConfigurationError
          ''Push notification system is not configured. Call configure() first.'')
      | Some cfg \<Rightarrow>
          (case vapidKeys cfg of
             None \<Rightarrow> Throws (ConfigurationError
               ''VAPID keys are required. Provide vapidKeys in configuration.'')
           | Some vk \<Rightarrow>
               if \<not> truthy (publicKey vk) \<or> \<not> truthy (privateKey vk)
               then Throws (ConfigurationError
                 ''VAPID keys must include both publicKey and privateKey.'')
               else (case storageAdapter cfg of
                       None \<Rightarrow> Throws (ConfigurationError
                         ''Storage adapter is required. Provide storageAdapter in configuration.'')
                     | Some st \<Rightarrow> Returns (cfg, st))))"

definition getProviderAdapter :: "'w PushConfiguration \<Rightarrow> 'w ProviderAdapter outcome" where
  "getProviderAdapter cfg =
     (case providerAdapter cfg of
        Some p \<Rightarrow> Returns p
      | None \<Rightarrow> Throws (ConfigurationError
          ''Provider adapter is required. Please configure providerAdapter.''))"

text \<open>A synchronous result, as an action that leaves the world alone.\<close>

definition settle :: "'a outcome \<Rightarrow> ('a, 'w) action" where
  "settle r w = (r, w)"

text \<open>
  \<open>emitHook\<close>: the hook, when configured, is awaited and an error it throws is logged
  and dropped.  The argument is the hook looked up by name and applied to its
  arguments.
\<close>

definition hookOf :: "'w PushConfiguration \<Rightarrow> ('w LifecycleHooks \<Rightarrow> 'h option) \<Rightarrow> 'h option" where
  "hookOf cfg name = (case lifecycleHooks cfg of None \<Rightarrow> None | Some hooks \<Rightarrow> name hooks)"

definition emitHook :: "(unit, 'w) action option \<Rightarrow> (unit, 'w) action" where
  "emitHook hook =
     (case hook of
        None \<Rightarrow> resolve ()
      | Some h \<Rightarrow> tryCatch h (\<lambda>err. resolve ()))"

text \<open>
  \<open>emitMetric\<close> (the orchestrator's and the worker's are the same code): a gauge when a
  value is given, a counter otherwise; an error of the metrics adapter is logged and
  dropped.
\<close>

definition emitMetric :: "'w MetricsAdapter option \<Rightarrow> string \<Rightarrow> int option \<Rightarrow> (unit, 'w) action" where
  "emitMetric adapter metric v =
     (case adapter of
        None \<Rightarrow> resolve ()
      | Some m \<Rightarrow>
          tryCatch (case v of Some x \<Rightarrow> gauge m metric x | None \<Rightarrow> increment m metric)
            (\<lambda>err. resolve ()))"

definition verifySubscription :: "Subscription \<Rightarrow> unit outcome" where
  "verifySubscription subscription =
     (if \<not> truthy (endpoint subscription)
      then Throws (ValidationError ''Subscription must have an endpoint'' ''endpoint'')
      else case keys subscription of
        None \<Rightarrow> Throws (ValidationError ''Subscription must have keys'' ''keys'')
      | Some k \<Rightarrow>
          if \<not> truthy (p256dh k)
          then Throws (ValidationError ''Subscription keys must include p256dh'' ''keys.p256dh'')
          else if \<not> truthy (auth k)
          then Throws (ValidationError ''Subscription keys must include auth'' ''keys.auth'')
          else Returns ())"

text \<open>
  The policy \<open>sendNotification\<close> builds for a failed send: every field of the configured
  partial policy, or its default (\<open>??\<close>); jitter is on unless it is \<open>false\<close>.
\<close>

definition effectiveRetryPolicy :: "'w PushConfiguration \<Rightarrow> RetryPolicy" where
  "effectiveRetryPolicy cfg =
     \<lparr>maxRetries = (case retryPolicy cfg of None \<Rightarrow> 8
         | Some p \<Rightarrow> (case maxRetries_opt p of None \<Rightarrow> 8 | Some v \<Rightarrow> v)),
      baseDelay = (case retryPolicy cfg of None \<Rightarrow> 1000
         | Some p \<Rightarrow> (case baseDelay_opt p of None \<Rightarrow> 1000 | Some v \<Rightarrow> v)),
      backoffFactor = (case retryPolicy cfg of None \<Rightarrow> 2
         | Some p \<Rightarrow> (case backoffFactor_opt p of None \<Rightarrow> 2 | Some v \<Rightarrow> v)),
      maxDelay = (case retryPolicy cfg of None \<Rightarrow> 3600000
         | Some p \<Rightarrow> (case maxDelay_opt p of None \<Rightarrow> 3600000 | Some v \<Rightarrow> v)),
      jitter = (case retryPolicy cfg of None \<Rightarrow> True
         | Some p \<Rightarrow> jitter_opt p \<noteq> Some False)\<rparr>"

text \<open>
  The provider call of \<open>sendNotification\<close>: through \<open>this.circuitBreaker.execute\<close> when
  the orchestrator has a breaker, directly otherwise.
\<close>

definition callProvider ::
    "(ProviderResult, 'x world) action \<Rightarrow> (ProviderResult, 'x world PushCore \<times> 'x world) action" where
  "callProvider send = (\<lambda>(core, w).
     case circuitBreaker core of
       Some cb \<Rightarrow>
         (case execute currentTime send (cb, w) of
            (r, (cb', w')) \<Rightarrow> (r, (core\<lparr>circuitBreaker := Some cb'\<rparr>, w')))
     | None \<Rightarrow> inWorld send (core, w))"

text \<open>The branch \<open>if (result.success)\<close> of \<open>sendNotification\<close>.\<close>

definition handleSuccess ::
    "'x world PushConfiguration \<Rightarrow> 'x world StorageAdapter \<Rightarrow> int \<Rightarrow> Subscription \<Rightarrow>
       ProviderResult \<Rightarrow> (SendResult, 'x world) action" where
  "handleSuccess cfg st startTime subscription result =
     andThen Date_now (\<lambda>now.
     andThen (updateSubscription st (sub_id subscription) (noUpdate\<lparr>u_lastUsedAt := Some now\<rparr>))
       (\<lambda>_.
     andThen (emitHook (map_option (\<lambda>h. h subscription result) (hookOf cfg hook_onSuccess)))
       (\<lambda>_.
     andThen (emitMetric (metricsAdapter cfg) ''push.send.success'' None) (\<lambda>_.
     andThen Date_now (\<lambda>finished.
     andThen (emitMetric (metricsAdapter cfg) ''push.send.duration'' (Some (finished - startTime)))
       (\<lambda>_.
     resolve \<lparr>s_success = True, s_subscriptionId = sub_id subscription,
              s_error = None, s_enqueued = None\<rparr>))))))"

text \<open>The rest of the \<open>try\<close> block: a provider result that is not a success.\<close>

definition handleFailure ::
    "'x world PushConfiguration \<Rightarrow> 'x world StorageAdapter \<Rightarrow> Subscription \<Rightarrow>
       NotificationPayload \<Rightarrow> ProviderResult \<Rightarrow> (SendResult, 'x world) action" where
  "handleFailure cfg st subscription payload result =
     (let policy = effectiveRetryPolicy cfg
      in if shouldRetry result 0 (maxRetries policy)
         then
           andThen (calculateNextRetryAt 0 policy (p_retryAfter result)) (\<lambda>nextRetryAt.
           andThen randomUUID (\<lambda>uuid.
           andThen Date_now (\<lambda>now.
           andThen (enqueueRetry st
              \<lparr>r_id = uuid, r_subscriptionId = sub_id subscription, r_payload = payload,
               r_attempt = 0, r_nextRetryAt = nextRetryAt,
               r_lastError = map_option message (p_error result), r_createdAt = now\<rparr>) (\<lambda>_.
           andThen (emitHook (map_option (\<lambda>h. h subscription 0) (hookOf cfg hook_onRetry)))
             (\<lambda>_.
           andThen (emitMetric (metricsAdapter cfg) ''push.send.retry_enqueued'' None) (\<lambda>_.
           resolve \<lparr>s_success = False, s_subscriptionId = sub_id subscription,
                    s_error = p_error result, s_enqueued = Some True\<rparr>))))))
         else
           andThen (emitHook (map_option
              (\<lambda>h. h subscription
                 (case p_error result of Some e \<Rightarrow> e | None \<Rightarrow> Error ''Send failed''))
              (hookOf cfg hook_onFailure))) (\<lambda>_.
           andThen (emitMetric (metricsAdapter cfg) ''push.send.failure'' None) (\<lambda>_.
           resolve \<lparr>s_success = False, s_subscriptionId = sub_id subscription,
                    s_error = p_error result, s_enqueued = Some False\<rparr>)))"

text \<open>The \<open>try\<close> block of \<open>sendNotification\<close>.\<close>

definition sendAttempt ::
    "'x world PushConfiguration \<Rightarrow> 'x world StorageAdapter \<Rightarrow> Subscription \<Rightarrow>
       NotificationPayload \<Rightarrow> SendOptions \<Rightarrow> (SendResult, 'x world PushCore \<times> 'x world) action" where
  "sendAttempt cfg st subscription payload options =
     andThen (inWorld Date_now) (\<lambda>startTime.
     andThen (inWorld (emitHook
        (map_option (\<lambda>h. h subscription payload) (hookOf cfg hook_onSend)))) (\<lambda>_.
     andThen (inWorld (emitMetric (metricsAdapter cfg) ''push.send.attempt'' None)) (\<lambda>_.
     andThen (inWorld (settle (verifySubscription subscription))) (\<lambda>_.
     andThen (inWorld (case rateLimiter cfg of Some acquire \<Rightarrow> acquire | None \<Rightarrow> resolve ()))
       (\<lambda>_.
     andThen (inWorld (settle (getProviderAdapter cfg))) (\<lambda>provider.
     andThen (callProvider (provider subscription payload options)) (\<lambda>result.
       if p_success result
       then inWorld (handleSuccess cfg st startTime subscription result)
       else inWorld (handleFailure cfg st subscription payload result))))))))"

text \<open>The \<open>catch\<close> block of \<open>sendNotification\<close>.\<close>

definition sendRecover ::
    "'x world PushConfiguration \<Rightarrow> Subscription \<Rightarrow> error \<Rightarrow> (SendResult, 'x world) action" where
  "sendRecover cfg subscription err =
     andThen (emitHook (map_option (\<lambda>h. h subscription err) (hookOf cfg hook_onFailure))) (\<lambda>_.
     andThen (emitMetric (metricsAdapter cfg) ''push.send.error'' None) (\<lambda>_.
     resolve \<lparr>s_success = False, s_subscriptionId = sub_id subscription,
              s_error = Some err, s_enqueued = Some False\<rparr>))"

text \<open>
  \<open>sendNotification\<close>: what the returned promise settles to, with the orchestrator and
  the world it leaves.  A \<open>Throws\<close> is a rejected promise.  One operation runs at a time;
  what other operations do meanwhile is part of what the collaborators do to the world.
\<close>

definition sendNotification ::
    "Subscription \<Rightarrow> NotificationPayload \<Rightarrow> SendOptions \<Rightarrow>
       (SendResult, 'x world PushCore \<times> 'x world) action" where
  "sendNotification subscription payload options = (\<lambda>(core, w).
     case ensureNotShuttingDown core of
       Throws e \<Rightarrow> (Throws e, (core, w))
     | Hangs \<Rightarrow> (Hangs, (core, w))
     | Returns _ \<Rightarrow>
         (case validateConfiguration core of
            Throws e \<Rightarrow> (Throws e, (core, w))
          | Hangs \<Rightarrow> (Hangs, (core, w))
          | Returns (cfg, st) \<Rightarrow>
              tryCatch (sendAttempt cfg st subscription payload options)
                (\<lambda>err. inWorld (sendRecover cfg subscription err)) (core, w)))"

section \<open>Retry worker\<close>

text \<open>
  \<open>push-core/src/worker/RetryWorker.ts\<close>: the fields \<open>processRetry\<close> uses (prefix \<open>w_\<close> for the
  constructor's parameters).
\<close>

record 'w RetryWorker =
  running :: bool
  processing :: "string set"
  w_storage :: "'w StorageAdapter"
  w_provider :: "'w ProviderAdapter"
  w_retryPolicy :: RetryPolicy
  w_metricsAdapter :: "'w MetricsAdapter option"

definition noOptions :: SendOptions where
  "noOptions = \<lparr>ttl = None, urgency = None, topic = None\<rparr>"

text \<open>The \<open>try\<close> block of \<open>processRetry\<close>.\<close>

definition processAttempt :: "'x world RetryWorker \<Rightarrow> RetryEntry \<Rightarrow> (unit, 'x world) action" where
  "processAttempt worker retry =
     andThen (emitMetric (w_metricsAdapter worker) ''worker.retry.processing'' None) (\<lambda>_.
     andThen (getSubscriptionById (w_storage worker) (r_subscriptionId retry)) (\<lambda>found.
       case found of
         None \<Rightarrow>
           andThen (ackRetry (w_storage worker) (r_id retry)) (\<lambda>_.
           emitMetric (w_metricsAdapter worker) ''worker.retry.subscription_not_found'' None)
       | Some subscription \<Rightarrow>
           andThen (w_provider worker subscription (r_payload retry) noOptions) (\<lambda>result.
             if p_success result
             then
               andThen (ackRetry (w_storage worker) (r_id retry)) (\<lambda>_.
               andThen Date_now (\<lambda>now.
               andThen (updateSubscription (w_storage worker) (sub_id subscription)
                  (noUpdate\<lparr>u_lastUsedAt := Some now, u_failedCount := Some 0\<rparr>)) (\<lambda>_.
               emitMetric (w_metricsAdapter worker) ''worker.retry.success'' None)))
             else if shouldRetry result (r_attempt retry) (maxRetries (w_retryPolicy worker))
             then
               andThen (calculateNextRetryAt (r_attempt retry + 1) (w_retryPolicy worker)
                  (p_retryAfter result)) (\<lambda>nextRetryAt.
               andThen (enqueueRetry (w_storage worker)
                  (retry\<lparr>r_attempt := r_attempt retry + 1, r_nextRetryAt := nextRetryAt,
                         r_lastError := map_option message (p_error result)\<rparr>)) (\<lambda>_.
               andThen (ackRetry (w_storage worker) (r_id retry)) (\<lambda>_.
               emitMetric (w_metricsAdapter worker) ''worker.retry.re_enqueued'' None)))
             else
               andThen (ackRetry (w_storage worker) (r_id retry)) (\<lambda>_.
               andThen (updateSubscription (w_storage worker) (sub_id subscription)
                  (noUpdate\<lparr>u_status := Some expired,
                            u_failedCount := Some (failedCount subscription + 1)\<rparr>)) (\<lambda>_.
               emitMetric (w_metricsAdapter worker) ''worker.retry.max_retries_exceeded'' None)))))"

text \<open>
  The \<open>catch\<close> block: the error is logged, and the entry acknowledged whatever happens
  (an error of that acknowledgement is logged and dropped).
\<close>

definition processRecover :: "'x world RetryWorker \<Rightarrow> RetryEntry \<Rightarrow> error \<Rightarrow> (unit, 'x world) action" where
  "processRecover worker retry err =
     andThen (emitMetric (w_metricsAdapter worker) ''worker.retry.error'' None) (\<lambda>_.
     tryCatch (ackRetry (w_storage worker) (r_id retry)) (\<lambda>ackError. resolve ()))"

text \<open>
  \<open>processRetry\<close>: the entry's id is in \<open>processing\<close> while the entry is worked on; the
  \<open>finally\<close> block removes it when the work has settled.
\<close>

definition processRetry ::
    "RetryEntry \<Rightarrow> (unit, 'x world RetryWorker \<times> 'x world) action" where
  "processRetry retry = (\<lambda>(worker, w).
     let busy = worker\<lparr>processing := insert (r_id retry) (processing worker)\<rparr>
     in case tryCatch (processAttempt worker retry) (processRecover worker retry) w of
          (Hangs, w') \<Rightarrow> (Hangs, (busy, w'))
        | (r, w') \<Rightarrow> (r, (busy\<lparr>processing := processing busy - {r_id retry}\<rparr>, w')))"

section \<open>Vocabulary of the statements\<close>

text \<open>A collaborator that always settles, and one that leaves the database alone.\<close>

definition settles :: "('a, 'w) action \<Rightarrow> bool" where
  "settles m = (\<forall>w. fst (m w) \<noteq> Hangs)"

definition keepsDatabase :: "('a, 'x world) action \<Rightarrow> bool" where
  "keepsDatabase m = (\<forall>w. db (snd (m w)) = db w)"

text \<open>
  A property \<open>P\<close> of every observer of a configuration: each lifecycle hook, applied to
  any arguments, and each method of the metrics adapter.
\<close>

definition observers ::
    "((unit, 'w) action \<Rightarrow> bool) \<Rightarrow> 'w PushConfiguration \<Rightarrow> bool" where
  "observers P cfg =
     ((\<forall>hooks. lifecycleHooks cfg = Some hooks \<longrightarrow>
         (\<forall>h s p. hook_onSend hooks = Some h \<longrightarrow> P (h s p)) \<and>
         (\<forall>h s r. hook_onSuccess hooks = Some h \<longrightarrow> P (h s r)) \<and>
         (\<forall>h s e. hook_onFailure hooks = Some h \<longrightarrow> P (h s e)) \<and>
         (\<forall>h s n. hook_onRetry hooks = Some h \<longrightarrow> P (h s n))) \<and>
      (\<forall>m. metricsAdapter cfg = Some m \<longrightarrow>
         (\<forall>name. P (increment m name)) \<and> (\<forall>name v. P (gauge m name v))))"

text \<open>Every collaborator a send can call settles, whatever it is called with.\<close>

definition collaboratorsSettle :: "'w PushConfiguration \<Rightarrow> 'w StorageAdapter \<Rightarrow> bool" where
  "collaboratorsSettle cfg st =
     (observers settles cfg \<and>
      (\<forall>acquire. rateLimiter cfg = Some acquire \<longrightarrow> settles acquire) \<and>
      (\<forall>p s pl opts. providerAdapter cfg = Some p \<longrightarrow> settles (p s pl opts)) \<and>
      (\<forall>ident u. settles (updateSubscription st ident u)) \<and>
      (\<forall>r. settles (enqueueRetry st r)))"

text \<open>An action that never ends in an exception.\<close>

definition neverThrows :: "('a, 'w) action \<Rightarrow> bool" where
  "neverThrows m = (\<forall>w e. fst (m w) \<noteq> Throws e)"

section \<open>A configuration for the examples\<close>

text \<open>
  The world outside is a log of the calls that reached it.  The subscription \<open>s1\<close> is
  stored with three failures on record; hooks are configured and write to the log; the
  storage adapter is the SQLite one; the retry policy is the default one without
  jitter; there is no rate limiter and no metrics adapter.  The orchestrator has the
  new circuit breaker that \<open>configure\<close> creates.  The clock stands at 5000: the
  database answers within the millisecond (no latencies).
\<close>

definition logging :: "string \<Rightarrow> (unit, string list world) action" where
  "logging name w = (Returns (), w\<lparr>outside := outside w @ [name]\<rparr>)"

definition exampleSubscription :: Subscription where
  "exampleSubscription =
     \<lparr>sub_id = ''s1'', endpoint = Some ''https://push.example.com/s1'',
      keys = Some \<lparr>p256dh = Some ''key'', auth = Some ''secret''\<rparr>, userId = None,
      createdAt = 100, updatedAt = 100, lastUsedAt = None, failedCount = 3,
      status = active, expiresAt = None, metadata = None\<rparr>"

definition examplePayload :: NotificationPayload where
  "examplePayload =
     \<lparr>title = ''Hello'', body = ''World'', icon = None, badge = None, tag = None,
      requireInteraction = None\<rparr>"

definition exampleWorld :: "string list world" where
  "exampleWorld =
     \<lparr>currentTime = 5000, latencies = [], randomValue = 0.5, nextUUID = ''u1'',
      db = \<lparr>subscriptions = [''s1'' \<mapsto> exampleSubscription], retry_queue = [],
            closed = False\<rparr>,
      outside = []\<rparr>"

definition providerReturning :: "ProviderResult \<Rightarrow> string list world ProviderAdapter" where
  "providerReturning result subscription payload options w =
     (Returns result, w\<lparr>outside := outside w @ [''send'']\<rparr>)"

definition providerThrowing :: "error \<Rightarrow> string list world ProviderAdapter" where
  "providerThrowing err subscription payload options w =
     (Throws err, w\<lparr>outside := outside w @ [''send'']\<rparr>)"

definition delivered :: ProviderResult where
  "delivered =
     \<lparr>p_success = True, p_statusCode = Some 201, p_error = None, p_shouldRetry = False,
      p_retryAfter = None\<rparr>"

definition unavailable :: ProviderResult where
  "unavailable =
     \<lparr>p_success = False, p_statusCode = Some 500, p_error = Some (Error ''Server error''),
      p_shouldRetry = True, p_retryAfter = None\<rparr>"

definition exampleConfiguration ::
    "string list world ProviderAdapter \<Rightarrow> string list world PushConfiguration" where
  "exampleConfiguration provider =
     \<lparr>vapidKeys = Some \<lparr>publicKey = Some ''public'', privateKey = Some ''private'',
                         subject = None\<rparr>,
      storageAdapter = Some SQLiteStorageAdapter,
      providerAdapter = Some provider,
      retryPolicy = Some \<lparr>maxRetries_opt = Some 8, baseDelay_opt = Some 1000,
                          backoffFactor_opt = Some 2, maxDelay_opt = Some 3600000,
                          jitter_opt = Some False\<rparr>,
      rateLimiter = None,
      metricsAdapter = None,
      lifecycleHooks = Some
        \<lparr>hook_onSend = Some (\<lambda>s p. logging ''onSend''),
         hook_onSuccess = Some (\<lambda>s r. logging ''onSuccess''),
         hook_onFailure = Some (\<lambda>s e. logging ''onFailure''),
         hook_onRetry = Some (\<lambda>s n. logging ''onRetry'')\<rparr>\<rparr>"

definition exampleCore :: "string list world ProviderAdapter \<Rightarrow> string list world PushCore" where
  "exampleCore provider =
     \<lparr>config = Some (exampleConfiguration provider),
      circuitBreaker = Some (new_CircuitBreaker None),
      isShuttingDown = False\<rparr>"

text \<open>
  A worker on the same database whose provider answers 500 with \<open>shouldRetry: true\<close>,
  and the queue entry \<open>r1\<close> for subscription \<open>s1\<close>, at attempt 8 of at most 8.
\<close>

definition exampleWorker :: "string list world RetryWorker" where
  "exampleWorker =
     \<lparr>running = True, processing = {},
      w_storage = SQLiteStorageAdapter,
      w_provider = providerReturning unavailable,
      w_retryPolicy = \<lparr>maxRetries = 8, baseDelay = 1000, backoffFactor = 2,
                        maxDelay = 3600000, jitter = False\<rparr>,
      w_metricsAdapter = None\<rparr>"

definition exampleRetry :: RetryEntry where
  "exampleRetry =
     \<lparr>r_id = ''r1'', r_subscriptionId = ''s1'', r_payload = examplePayload, r_attempt = 8,
      r_nextRetryAt = 4000, r_lastError = Some ''Server error'', r_createdAt = 1000\<rparr>"

section \<open>Properties of the retry policy and the retry decision\<close>

lemma new_Date_of_int: "new_Date (real_of_int k) = k"
  by (simp add: new_Date_def)

lemma new_Date_near: "\<bar>real_of_int (new_Date t) - t\<bar> < 1"
  unfolding new_Date_def by (auto; linarith)

lemma backoffDelay_no_jitter:
  "\<not> jitter policy \<Longrightarrow>
   backoffDelay rnd attempt policy =
     min (baseDelay policy * backoffFactor policy ^ attempt) (maxDelay policy)"
  by (simp add: backoffDelay_def Let_def)

text \<open>
  Claim C5.  With \<open>jitter = false\<close> and no positive \<open>retryAfter\<close> (none at all, or one
  that is zero or negative), \<open>calculateNextRetry\<close> returns the date
  \<open>now + min(baseDelay \<times> backoffFactor^attempt, maxDelay)\<close>: the \<open>Date\<close> built from that
  time value, which is less than one millisecond away from it.  The random number is
  not consulted.
\<close>

theorem calculateNextRetry_without_jitter:
  assumes "\<not> jitter policy"
    and "retryAfter = None \<or> (\<exists>ra. retryAfter = Some ra \<and> ra \<le> 0)"
  shows "calculateNextRetry now rnd attempt policy retryAfter =
           new_Date (real_of_int now +
              min (baseDelay policy * backoffFactor policy ^ attempt) (maxDelay policy))
         \<and> \<bar>real_of_int (calculateNextRetry now rnd attempt policy retryAfter) -
              (real_of_int now +
                min (baseDelay policy * backoffFactor policy ^ attempt) (maxDelay policy))\<bar> < 1"
proof -
  have eq: "calculateNextRetry now rnd attempt policy retryAfter =
      new_Date (real_of_int now + backoffDelay rnd attempt policy)"
    using assms(2) by (auto simp: calculateNextRetry_def)
  show ?thesis
    unfolding eq backoffDelay_no_jitter [OF assms(1)]
    by (simp add: new_Date_near)
qed

text \<open>
  The default policy without jitter: attempt 3 at time 5000 is due at 5000 + 8000, and
  attempt 20 with a \<open>retryAfter\<close> of zero is due after the cap of one hour.
\<close>

theorem calculateNextRetry_without_jitter_witness:
  "\<not> jitter \<lparr>maxRetries = 8, baseDelay = 1000, backoffFactor = 2,
              maxDelay = 3600000, jitter = False\<rparr>
   \<and> calculateNextRetry 5000 0.3 3
        \<lparr>maxRetries = 8, baseDelay = 1000, backoffFactor = 2,
           maxDelay = 3600000, jitter = False\<rparr> None = 13000
   \<and> calculateNextRetry 5000 0.3 20
        \<lparr>maxRetries = 8, baseDelay = 1000, backoffFactor = 2,
           maxDelay = 3600000, jitter = False\<rparr> (Some 0) = 3605000"
  using
    calculateNextRetry_without_jitter
      [of "\<lparr>maxRetries = 8, baseDelay = 1000, backoffFactor = 2,
              maxDelay = 3600000, jitter = False\<rparr>" None 5000 "0.3" 3]
    calculateNextRetry_without_jitter
      [of "\<lparr>maxRetries = 8, baseDelay = 1000, backoffFactor = 2,
              maxDelay = 3600000, jitter = False\<rparr>" "Some 0" 5000 "0.3" 20]
  by (simp add: new_Date_def)

text \<open>
  Claim C6.  A \<open>retryAfter\<close> that is provided and strictly positive makes
  \<open>calculateNextRetry\<close> return the date \<open>now + retryAfter\<close> seconds, whatever the attempt
  number, the policy (jitter included) and the random number are; for a whole number of
  seconds \<open>k\<close> that is the timestamp \<open>now + 1000 k\<close> exactly.
\<close>

theorem calculateNextRetry_retryAfter:
  assumes "0 < ra"
  shows "calculateNextRetry now rnd attempt policy (Some ra) =
           new_Date (real_of_int now + ra * 1000)
       \<and> (\<forall>k. ra = real_of_int k \<longrightarrow>
             calculateNextRetry now rnd attempt policy (Some ra) = now + k * 1000)"
proof -
  have eq: "calculateNextRetry now rnd attempt policy (Some ra) =
      new_Date (real_of_int now + ra * 1000)"
    using assms by (simp add: calculateNextRetry_def)
  have whole: "new_Date (real_of_int now + real_of_int k * 1000) = now + k * 1000" for k
    using new_Date_of_int [of "now + k * 1000"] by simp
  show ?thesis
  proof (intro conjI allI impI)
    show "calculateNextRetry now rnd attempt policy (Some ra) =
        new_Date (real_of_int now + ra * 1000)"
      by (rule eq)
  next
    fix k assume "ra = real_of_int k"
    then show "calculateNextRetry now rnd attempt policy (Some ra) = now + k * 1000"
      using eq whole [of k] by simp
  qed
qed

theorem calculateNextRetry_retryAfter_witness:
  "(0::real) < 60 \<and>
   calculateNextRetry 5000 0.3 10
     \<lparr>maxRetries = 8, baseDelay = 1000, backoffFactor = 2,
        maxDelay = 3600000, jitter = True\<rparr> (Some 60) = 65000"
  using calculateNextRetry_retryAfter
    [of 60 5000 "0.3" 10
        "\<lparr>maxRetries = 8, baseDelay = 1000, backoffFactor = 2,
           maxDelay = 3600000, jitter = True\<rparr>"]
  by (simp add: new_Date_def)

text \<open>
  Claim C7.  \<open>shouldRetry(result, attempt, maxRetries)\<close> equals
  \<open>attempt < maxRetries\<close> and \<open>result.shouldRetry\<close>: it is false whenever
  \<open>attempt \<ge> maxRetries\<close>, false whenever the provider's flag is false, and the status
  code (absent, 429, 5xx or anything else) never changes the answer.
\<close>

theorem shouldRetry_is_flag_below_limit:
  "shouldRetry result attempt limit = (attempt < limit \<and> p_shouldRetry result)"
  by (auto simp: shouldRetry_def split: option.splits)


section \<open>Properties of the token bucket\<close>

lemma tokens_refill:
  "tokens (refill now b) =
     min (capacity b) (tokens b + real_of_int (now - lastRefill b) / 1000 * refillRate b)"
  by (simp add: refill_def Let_def)

lemma refill_fields:
  "capacity (refill now b) = capacity b"
  "refillRate (refill now b) = refillRate b"
  "lastRefill (refill now b) = now"
  by (simp_all add: refill_def Let_def)

lemma refill_le_capacity: "tokens (refill now b) \<le> capacity b"
  by (simp add: tokens_refill)

lemma refill_mono:
  assumes "0 \<le> refillRate b" "t1 \<le> t2"
  shows "tokens (refill t1 b) \<le> tokens (refill t2 b)"
proof -
  have "real_of_int (t1 - lastRefill b) / 1000 * refillRate b
      \<le> real_of_int (t2 - lastRefill b) / 1000 * refillRate b"
    using assms by (intro mult_right_mono divide_right_mono) auto
  then show ?thesis unfolding tokens_refill by (auto simp: min_def)
qed

lemma refill_again:
  assumes "0 \<le> refillRate b" "t1 \<le> t2"
  shows "tokens (refill t1 b) \<le> tokens (refill t2 (refill t1 b))"
proof -
  have "0 \<le> real_of_int (t2 - t1) / 1000 * refillRate b"
    using assms by (intro mult_nonneg_nonneg divide_nonneg_nonneg) auto
  then show ?thesis
    using refill_le_capacity [of t1 b]
    by (simp add: tokens_refill [of t2] refill_fields min_def)
qed

text \<open>
  Claim C8.  \<open>tryAcquire(n)\<close> at time \<open>now\<close> succeeds exactly when the refilled token
  count is at least \<open>n\<close>; on success the bucket is the refilled one with exactly \<open>n\<close>
  tokens deducted, on failure it is the refilled one, unchanged.  The refilled count,
  and so the number \<open>getAvailableTokens\<close> reports, never exceeds the capacity, and
  deducting a non-negative \<open>n\<close> keeps it there.  For a refill rate that is not negative
  and times \<open>t1 \<le> t2\<close>, with no consumption in between: the count available at \<open>t2\<close> is
  at least the one available at \<open>t1\<close>, whether or not the bucket was read (and so
  refilled) at \<open>t1\<close>.
\<close>

theorem tryAcquire_token_bucket:
  "(fst (tryAcquire now n b) \<longleftrightarrow> n \<le> tokens (refill now b))
   \<and> (fst (tryAcquire now n b) \<longrightarrow>
        snd (tryAcquire now n b) = (refill now b)\<lparr>tokens := tokens (refill now b) - n\<rparr>)
   \<and> (\<not> fst (tryAcquire now n b) \<longrightarrow> snd (tryAcquire now n b) = refill now b)
   \<and> tokens (refill now b) \<le> capacity b
   \<and> real_of_int (fst (getAvailableTokens now b)) \<le> capacity b
   \<and> (0 \<le> n \<longrightarrow> tokens (snd (tryAcquire now n b)) \<le> capacity b)
   \<and> (0 \<le> refillRate b \<and> t1 \<le> t2 \<longrightarrow>
        tokens (refill t1 b) \<le> tokens (refill t2 b)
        \<and> fst (getAvailableTokens t1 b) \<le> fst (getAvailableTokens t2 b)
        \<and> tokens (refill t1 b) \<le> tokens (refill t2 (refill t1 b))
        \<and> fst (getAvailableTokens t1 b)
            \<le> fst (getAvailableTokens t2 (snd (getAvailableTokens t1 b))))"
proof -
  have a: "fst (tryAcquire now n b) \<longleftrightarrow> n \<le> tokens (refill now b)"
    by (simp add: tryAcquire_def Let_def)
  have b: "fst (tryAcquire now n b) \<longrightarrow>
        snd (tryAcquire now n b) = (refill now b)\<lparr>tokens := tokens (refill now b) - n\<rparr>"
    by (simp add: tryAcquire_def Let_def)
  have c: "\<not> fst (tryAcquire now n b) \<longrightarrow> snd (tryAcquire now n b) = refill now b"
    by (simp add: tryAcquire_def Let_def)
  have d: "tokens (refill now b) \<le> capacity b"
    by (rule refill_le_capacity)
  have e: "real_of_int (fst (getAvailableTokens now b)) \<le> capacity b"
    using d by (simp add: getAvailableTokens_def Let_def) linarith
  have f: "0 \<le> n \<longrightarrow> tokens (snd (tryAcquire now n b)) \<le> capacity b"
    using d by (simp add: tryAcquire_def Let_def)
  have g: "0 \<le> refillRate b \<and> t1 \<le> t2 \<longrightarrow>
        tokens (refill t1 b) \<le> tokens (refill t2 b)
        \<and> fst (getAvailableTokens t1 b) \<le> fst (getAvailableTokens t2 b)
        \<and> tokens (refill t1 b) \<le> tokens (refill t2 (refill t1 b))
        \<and> fst (getAvailableTokens t1 b)
            \<le> fst (getAvailableTokens t2 (snd (getAvailableTokens t1 b)))"
    using refill_mono [of b t1 t2] refill_again [of b t1 t2]
    by (auto simp: getAvailableTokens_def Let_def intro: floor_mono)
  from a b c d e f g show ?thesis by blast
qed

text \<open>
  A bucket of capacity 10 refilled at 2 tokens per second, holding 3 tokens at time 0:
  one second later it holds 5, so a request for 4 succeeds and leaves 1, a request for
  6 fails and leaves 5; after ten seconds it is full and stays at 10.
\<close>

theorem tryAcquire_token_bucket_witness:
  "tryAcquire 1000 4 \<lparr>capacity = 10, refillRate = 2, tokens = 3, lastRefill = 0\<rparr>
      = (True, \<lparr>capacity = 10, refillRate = 2, tokens = 1, lastRefill = 1000\<rparr>)
   \<and> tryAcquire 1000 6 \<lparr>capacity = 10, refillRate = 2, tokens = 3, lastRefill = 0\<rparr>
      = (False, \<lparr>capacity = 10, refillRate = 2, tokens = 5, lastRefill = 1000\<rparr>)
   \<and> fst (getAvailableTokens 1000
        \<lparr>capacity = 10, refillRate = 2, tokens = 3, lastRefill = 0\<rparr>) = 5
   \<and> fst (getAvailableTokens 10000
        \<lparr>capacity = 10, refillRate = 2, tokens = 3, lastRefill = 0\<rparr>) = 10
   \<and> (0::real) \<le> 2 \<and> (1000::int) \<le> 10000"
  using
    tryAcquire_token_bucket
      [of 1000 4 "\<lparr>capacity = 10, refillRate = 2, tokens = 3, lastRefill = 0\<rparr>" 1000 10000]
    tryAcquire_token_bucket
      [of 1000 6 "\<lparr>capacity = 10, refillRate = 2, tokens = 3, lastRefill = 0\<rparr>" 1000 10000]
  by (simp add: tryAcquire_def getAvailableTokens_def refill_def Let_def)


section \<open>Properties of the circuit breaker\<close>

lemma admit_not_open: "state cb \<noteq> Open \<Longrightarrow> admit now cb = Inr cb"
  by (simp add: admit_def)

lemma execute_throws:
  assumes "state cb \<noteq> Open" "fn w = (Throws e, w')"
  shows "execute clock fn (cb, w) = (Throws e, (onFailure (clock w') cb, w'))"
  using assms by (simp add: execute_def admit_not_open)

lemma execute_returns:
  assumes "state cb \<noteq> Open" "fn w = (Returns v, w')"
  shows "execute clock fn (cb, w) = (Returns v, (onSuccess cb, w'))"
  using assms by (simp add: execute_def admit_not_open)

lemma onFailure_fields:
  "failureCount (onFailure now cb) = failureCount cb + 1"
  "cb_config (onFailure now cb) = cb_config cb"
  "lastFailureTime (onFailure now cb) = Some now"
  "state (onFailure now cb) =
     (if failureThreshold (cb_config cb) \<le> failureCount cb + 1 then Open else state cb)"
  by (simp_all add: onFailure_def Let_def)

lemma onSuccess_config: "cb_config (onSuccess cb) = cb_config cb"
  by (simp add: onSuccess_def Let_def)

lemma onSuccess_cleared: "cleared cb \<Longrightarrow> cleared (onSuccess cb)"
  by (simp add: cleared_def onSuccess_def)

lemma new_CircuitBreaker_fields:
  "state (new_CircuitBreaker cfg) = Closed"
  "failureCount (new_CircuitBreaker cfg) = 0"
  "successCount (new_CircuitBreaker cfg) = 0"
  "lastFailureTime (new_CircuitBreaker cfg) = None"
  by (simp_all add: new_CircuitBreaker_def)




lemma execute_admitted:
  assumes "admit (clock w) cb = Inr cb1"
  shows "execute clock fn (cb, w) =
     (case fn w of
        (Returns v, w') \<Rightarrow> (Returns v, (onSuccess cb1, w'))
      | (Throws e, w') \<Rightarrow> (Throws e, (onFailure (clock w') cb1, w'))
      | (Hangs, w') \<Rightarrow> (Hangs, (cb1, w')))"
  using assms by (simp add: execute_def)

lemma execute_admitted_runs:
  assumes "admit (clock w) cb = Inr cb1"
  shows "fst (execute clock fn (cb, w)) = fst (fn w)
       \<and> snd (snd (execute clock fn (cb, w))) = snd (fn w)"
  using assms by (cases "fn w") (auto simp: execute_def split: outcome.splits)





text \<open>The invariant holds in a new breaker and along every history.\<close>

lemma tripped_step: "tripped cb \<Longrightarrow> tripped (step s cb)"
  by (cases s)
    (auto simp: tripped_def admit_def onSuccess_def onFailure_def reset_def Let_def
      split: if_splits)

lemma tripped_history: "tripped cb \<Longrightarrow> tripped (history steps cb)"
  unfolding history_def by (induction steps arbitrary: cb) (auto simp: tripped_step)

lemma tripped_new: "tripped (new_CircuitBreaker cfg)"
  by (simp add: tripped_def new_CircuitBreaker_fields)

lemma successes_cleared:
  assumes "\<forall>fn \<in> set fns. returns fn" "cleared cb"
  shows "cleared (fst (executeAll clock fns (cb, w)))"
  using assms
proof (induction fns arbitrary: cb w)
  case Nil
  then show ?case by simp
next
  case (Cons fn fns)
  from Cons.prems(1) obtain v w' where fn: "fn w = (Returns v, w')"
    unfolding returns_def by (metis list.set_intros(1))
  have "execute clock fn (cb, w) = (Returns v, (onSuccess cb, w'))"
    using Cons.prems(2) fn by (intro execute_returns) (auto simp: cleared_def)
  then show ?case using Cons by (simp add: onSuccess_cleared)
qed

lemma successes_from_halfOpen:
  assumes "\<forall>fn \<in> set fns. returns fn"
    and "state cb = HalfOpen"
    and "halfOpenMaxAttempts (cb_config cb) \<le> successCount cb + length fns"
    and "fns \<noteq> []"
  shows "cleared (fst (executeAll clock fns (cb, w)))"
  using assms
proof (induction fns arbitrary: cb w)
  case Nil
  then show ?case by simp
next
  case (Cons fn fns)
  from Cons.prems(1) obtain v w' where fn: "fn w = (Returns v, w')"
    unfolding returns_def by (metis list.set_intros(1))
  have ex: "execute clock fn (cb, w) = (Returns v, (onSuccess cb, w'))"
    using Cons.prems(2) fn by (intro execute_returns) auto
  show ?case
  proof (cases "halfOpenMaxAttempts (cb_config cb) \<le> successCount cb + 1")
    case True
    then have "cleared (onSuccess cb)"
      using Cons.prems(2) by (simp add: cleared_def onSuccess_def Let_def)
    then show ?thesis
      using ex Cons.prems(1) successes_cleared [of fns "onSuccess cb" clock w'] by simp
  next
    case False
    then have st: "state (onSuccess cb) = HalfOpen"
        "successCount (onSuccess cb) = successCount cb + 1"
      using Cons.prems(2) by (simp_all add: onSuccess_def Let_def)
    have "fns \<noteq> []" using False Cons.prems(3) by auto
    then have "cleared (fst (executeAll clock fns (onSuccess cb, w')))"
      using Cons.prems st by (intro Cons.IH) (auto simp: onSuccess_config)
    then show ?thesis using ex by simp
  qed
qed

lemma successes_below_halfOpenMax:
  assumes "\<forall>fn \<in> set fns. returns fn"
    and "state cb = HalfOpen"
    and "successCount cb + length fns < halfOpenMaxAttempts (cb_config cb)"
  shows "state (fst (executeAll clock fns (cb, w))) = HalfOpen"
  using assms
proof (induction fns arbitrary: cb w)
  case Nil
  then show ?case by simp
next
  case (Cons fn fns)
  from Cons.prems(1) obtain v w' where fn: "fn w = (Returns v, w')"
    unfolding returns_def by (metis list.set_intros(1))
  have ex: "execute clock fn (cb, w) = (Returns v, (onSuccess cb, w'))"
    using Cons.prems(2) fn by (intro execute_returns) auto
  have st: "state (onSuccess cb) = HalfOpen"
      "successCount (onSuccess cb) = successCount cb + 1"
    using Cons.prems(2,3) by (simp_all add: onSuccess_def Let_def)
  have "state (fst (executeAll clock fns (onSuccess cb, w'))) = HalfOpen"
    using Cons.prems st by (intro Cons.IH) (auto simp: onSuccess_config)
  then show ?case using ex by simp
qed

text \<open>
  Claim C4.  (1) A breaker that is in state \<open>half-open\<close> after any history of a new
  breaker goes to \<open>open\<close> with the one execution that fails: in \<open>half-open\<close> the failure
  counter is at or above the threshold, so the increment trips it at once.  (2) From
  \<open>half-open\<close>, with \<open>halfOpenMaxAttempts\<close> at least one, \<open>halfOpenMaxAttempts\<close>
  executions that succeed in a row leave the breaker closed with failure count and
  success count zero and no last failure time; a breaker that has just become
  half-open (success counter zero) stays half-open while fewer have succeeded.
\<close>

theorem circuit_breaker_half_open:
  "(cb = history steps (new_CircuitBreaker cfg) \<and> state cb = HalfOpen \<and>
      fn w = (Throws e, w') \<longrightarrow>
        execute clock fn (cb, w) = (Throws e, (onFailure (clock w') cb, w')) \<and>
        state (onFailure (clock w') cb) = Open)
   \<and> (state cb1 = HalfOpen \<and> 0 < halfOpenMaxAttempts (cb_config cb1) \<and>
        (\<forall>fn \<in> set fns. returns fn) \<longrightarrow>
          (length fns = halfOpenMaxAttempts (cb_config cb1) \<longrightarrow>
             cleared (fst (executeAll clock fns (cb1, w1)))) \<and>
          (successCount cb1 = 0 \<and> length fns < halfOpenMaxAttempts (cb_config cb1) \<longrightarrow>
             state (fst (executeAll clock fns (cb1, w1))) = HalfOpen))"
proof (intro conjI impI)
  assume a: "cb = history steps (new_CircuitBreaker cfg) \<and> state cb = HalfOpen \<and>
    fn w = (Throws e, w')"
  from a have cb: "cb = history steps (new_CircuitBreaker cfg)" and st: "state cb = HalfOpen"
    by blast+
  have "tripped cb"
    unfolding cb by (rule tripped_history [OF tripped_new])
  then have "failureThreshold (cb_config cb) \<le> failureCount cb"
    using st by (simp add: tripped_def)
  then show "state (onFailure (clock w') cb) = Open"
    by (simp add: onFailure_fields)
  show "execute clock fn (cb, w) = (Throws e, (onFailure (clock w') cb, w'))"
    using a by (intro execute_throws) auto
next
  assume b: "state cb1 = HalfOpen \<and> 0 < halfOpenMaxAttempts (cb_config cb1) \<and>
    (\<forall>fn \<in> set fns. returns fn)"
  {
    assume len: "length fns = halfOpenMaxAttempts (cb_config cb1)"
    then have "fns \<noteq> []" using b by auto
    then show "cleared (fst (executeAll clock fns (cb1, w1)))"
      using b len by (intro successes_from_halfOpen) auto
  next
    assume "successCount cb1 = 0 \<and> length fns < halfOpenMaxAttempts (cb_config cb1)"
    then show "state (fst (executeAll clock fns (cb1, w1))) = HalfOpen"
      using b by (intro successes_below_halfOpenMax) auto
  }
qed

text \<open>
  A breaker with threshold 2, a reset timeout of one second and two half-open attempts:
  failures at times 0 and 10 open it, the check at time 2000 makes it half-open.  A
  failing call then reopens it; one success keeps it half-open, two close and clear it.
\<close>

theorem circuit_breaker_half_open_witness:
  "history [Failure 0, Failure 10, Admit 2000]
      (new_CircuitBreaker (Some \<lparr>failureThreshold_opt = Some 2, resetTimeout_opt = Some 1000,
         halfOpenMaxAttempts_opt = Some 2\<rparr>))
     = \<lparr>state = HalfOpen, failureCount = 2, successCount = 0, lastFailureTime = Some 10,
        cb_config = \<lparr>failureThreshold = 2, resetTimeout = 1000, halfOpenMaxAttempts = 2\<rparr>\<rparr>
   \<and> state (fst (snd (execute (\<lambda>w. w) (reject (Error ''down'') :: (unit, int) action)
        (\<lparr>state = HalfOpen, failureCount = 2, successCount = 0, lastFailureTime = Some 10,
          cb_config = \<lparr>failureThreshold = 2, resetTimeout = 1000, halfOpenMaxAttempts = 2\<rparr>\<rparr>,
         2000)))) = Open
   \<and> state (fst (executeAll (\<lambda>w. w) [resolve () :: (unit, int) action]
        (\<lparr>state = HalfOpen, failureCount = 2, successCount = 0, lastFailureTime = Some 10,
          cb_config = \<lparr>failureThreshold = 2, resetTimeout = 1000, halfOpenMaxAttempts = 2\<rparr>\<rparr>,
         2000))) = HalfOpen
   \<and> fst (executeAll (\<lambda>w. w) [resolve (), resolve () :: (unit, int) action]
        (\<lparr>state = HalfOpen, failureCount = 2, successCount = 0, lastFailureTime = Some 10,
          cb_config = \<lparr>failureThreshold = 2, resetTimeout = 1000, halfOpenMaxAttempts = 2\<rparr>\<rparr>,
         2000))
     = \<lparr>state = Closed, failureCount = 0, successCount = 0, lastFailureTime = None,
        cb_config = \<lparr>failureThreshold = 2, resetTimeout = 1000, halfOpenMaxAttempts = 2\<rparr>\<rparr>"
proof -
  let ?cfg = "\<lparr>failureThreshold = 2, resetTimeout = 1000, halfOpenMaxAttempts = 2\<rparr>"
  let ?pc = "Some \<lparr>failureThreshold_opt = Some 2, resetTimeout_opt = Some 1000,
         halfOpenMaxAttempts_opt = Some 2\<rparr>"
  let ?half = "\<lparr>state = HalfOpen, failureCount = 2, successCount = 0,
        lastFailureTime = Some 10, cb_config = ?cfg\<rparr>"
  let ?down = "reject (Error ''down'') :: (unit, int) action"
  let ?ok = "resolve () :: (unit, int) action"
  have hist: "history [Failure 0, Failure 10, Admit 2000] (new_CircuitBreaker ?pc) = ?half"
    by (simp add: history_def new_CircuitBreaker_def onFailure_def admit_def
        shouldAttemptReset_def Let_def)
  have ok: "returns ?ok" by (simp add: returns_def resolve_def)
  have down: "?down 2000 = (Throws (Error ''down''), 2000)" by (simp add: reject_def)
  have one: "state (fst (snd (execute (\<lambda>w. w) ?down (?half, 2000)))) = Open"
    using hist down
      circuit_breaker_half_open
        [of ?half "[Failure 0, Failure 10, Admit 2000]" ?pc ?down 2000 "Error ''down''" 2000
            "\<lambda>w. w" ?half "[?ok]" 2000]
    by simp
  have two: "state (fst (executeAll (\<lambda>w. w) [?ok] (?half, 2000))) = HalfOpen"
    using ok
      circuit_breaker_half_open
        [of ?half "[Failure 0, Failure 10, Admit 2000]" ?pc ?down 2000 "Error ''down''" 2000
            "\<lambda>w. w" ?half "[?ok]" 2000]
    by simp
  have "cleared (fst (executeAll (\<lambda>w. w) [?ok, ?ok] (?half, 2000)))"
    using ok
      circuit_breaker_half_open
        [of ?half "[Failure 0, Failure 10, Admit 2000]" ?pc ?down 2000 "Error ''down''" 2000
            "\<lambda>w. w" ?half "[?ok, ?ok]" 2000]
    by simp
  moreover have "cb_config (fst (executeAll (\<lambda>w. w) [?ok, ?ok] (?half, 2000))) = ?cfg"
    by (simp add: execute_def admit_def onSuccess_def resolve_def Let_def)
  ultimately have three: "fst (executeAll (\<lambda>w. w) [?ok, ?ok] (?half, 2000))
     = \<lparr>state = Closed, failureCount = 0, successCount = 0, lastFailureTime = None,
        cb_config = ?cfg\<rparr>"
    by (simp add: cleared_def)
  from hist one two three show ?thesis by blast
qed


section \<open>Properties of the send pipeline\<close>

subsection \<open>Sequencing, exceptions and hangs\<close>

lemma andThen_Returns: "m w = (Returns a, w') \<Longrightarrow> andThen m f w = f a w'"
  by (simp add: andThen_def)

lemma andThen_Throws: "m w = (Throws e, w') \<Longrightarrow> andThen m f w = (Throws e, w')"
  by (simp add: andThen_def)

lemma andThen_Hangs: "m w = (Hangs, w') \<Longrightarrow> andThen m f w = (Hangs, w')"
  by (simp add: andThen_def)

lemma tryCatch_Throws: "m w = (Throws e, w') \<Longrightarrow> tryCatch m h w = h e w'"
  by (simp add: tryCatch_def)

lemma tryCatch_Returns: "m w = (Returns a, w') \<Longrightarrow> tryCatch m h w = (Returns a, w')"
  by (simp add: tryCatch_def)

lemma tryCatch_Hangs: "m w = (Hangs, w') \<Longrightarrow> tryCatch m h w = (Hangs, w')"
  by (simp add: tryCatch_def)

lemma neverThrows_resolve: "neverThrows (resolve a)"
  by (simp add: neverThrows_def resolve_def)

lemma neverThrows_andThen:
  assumes "neverThrows m" "\<And>a. neverThrows (f a)"
  shows "neverThrows (andThen m f)"
  unfolding neverThrows_def
proof (intro allI)
  fix w e
  obtain r w' where mw: "m w = (r, w')" by (cases "m w")
  show "fst (andThen m f w) \<noteq> Throws e"
  proof (cases r)
    case (Returns a)
    then show ?thesis using mw assms(2) [of a] by (simp add: andThen_def neverThrows_def)
  next
    case (Throws e')
    then show ?thesis using mw assms(1) by (auto simp: neverThrows_def dest: spec [of _ w])
  next
    case Hangs
    then show ?thesis using mw by (simp add: andThen_def)
  qed
qed

lemma neverThrows_tryCatch:
  assumes "\<And>e. neverThrows (h e)"
  shows "neverThrows (tryCatch m h)"
  unfolding neverThrows_def
proof (intro allI)
  fix w e
  obtain r w' where mw: "m w = (r, w')" by (cases "m w")
  show "fst (tryCatch m h w) \<noteq> Throws e"
    using mw assms by (cases r) (auto simp: tryCatch_def neverThrows_def)
qed

lemma neverThrows_inWorld: "neverThrows m \<Longrightarrow> neverThrows (inWorld m)"
  by (auto simp: neverThrows_def inWorld_def split: prod.splits) (metis fst_conv)

lemma neverThrows_emitHook: "neverThrows (emitHook hook)"
  by (cases hook) (auto simp: emitHook_def neverThrows_resolve intro: neverThrows_tryCatch)

lemma neverThrows_emitMetric: "neverThrows (emitMetric adapter metric v)"
  by (cases adapter) (auto simp: emitMetric_def neverThrows_resolve intro: neverThrows_tryCatch)

lemma neverThrows_sendRecover: "neverThrows (sendRecover cfg subscription err)"
  unfolding sendRecover_def
  by (intro neverThrows_andThen neverThrows_emitHook neverThrows_emitMetric neverThrows_resolve)

lemma sendNotification_checked:
  assumes "ensureNotShuttingDown core = Returns ()"
    and "validateConfiguration core = Returns (cfg, st)"
  shows "sendNotification subscription payload options (core, w) =
     tryCatch (sendAttempt cfg st subscription payload options)
       (\<lambda>err. inWorld (sendRecover cfg subscription err)) (core, w)"
  using assms by (simp add: sendNotification_def)

lemma never_rejects:
  assumes "ensureNotShuttingDown core = Returns ()"
    and "validateConfiguration core = Returns (cfg, st)"
  shows "fst (sendNotification subscription payload options (core, w)) \<noteq> Throws e"
proof -
  have "neverThrows (tryCatch (sendAttempt cfg st subscription payload options)
       (\<lambda>err. inWorld (sendRecover cfg subscription err)))"
    by (intro neverThrows_tryCatch neverThrows_inWorld neverThrows_sendRecover)
  then show ?thesis
    unfolding sendNotification_checked [OF assms] neverThrows_def by blast
qed

lemma settles_resolve: "settles (resolve a)"
  by (simp add: settles_def resolve_def)

lemma settles_reject: "settles (reject a)"
  by (simp add: settles_def reject_def)

lemma settles_settle: "r \<noteq> Hangs \<Longrightarrow> settles (settle r)"
  by (simp add: settles_def settle_def)

lemma settles_andThen:
  assumes "settles m" "\<And>a. settles (f a)"
  shows "settles (andThen m f)"
  unfolding settles_def
proof (intro allI)
  fix w
  obtain r w' where mw: "m w = (r, w')" by (cases "m w")
  show "fst (andThen m f w) \<noteq> Hangs"
  proof (cases r)
    case (Returns a)
    then show ?thesis using mw assms(2) [of a] by (simp add: andThen_def settles_def)
  next
    case (Throws e')
    then show ?thesis using mw by (simp add: andThen_def)
  next
    case Hangs
    then show ?thesis using mw assms(1) by (auto simp: settles_def dest: spec [of _ w])
  qed
qed

lemma settles_tryCatch:
  assumes "settles m" "\<And>e. settles (h e)"
  shows "settles (tryCatch m h)"
  unfolding settles_def
proof (intro allI)
  fix w
  obtain r w' where mw: "m w = (r, w')" by (cases "m w")
  show "fst (tryCatch m h w) \<noteq> Hangs"
    using mw assms by (cases r) (auto simp: tryCatch_def settles_def dest: spec [of _ w])
qed

lemma settles_inWorld: "settles m \<Longrightarrow> settles (inWorld m)"
  by (auto simp: settles_def inWorld_def split: prod.splits) (metis fst_conv)

lemma settles_emitHook: "(\<And>h. hook = Some h \<Longrightarrow> settles h) \<Longrightarrow> settles (emitHook hook)"
  by (cases hook) (auto simp: emitHook_def settles_resolve intro: settles_tryCatch)


lemma settles_emitMetric:
  assumes "\<And>m. adapter = Some m \<Longrightarrow>
    (\<forall>name. settles (increment m name)) \<and> (\<forall>name x. settles (gauge m name x))"
  shows "settles (emitMetric adapter metric v)"
proof (cases adapter)
  case None
  then show ?thesis by (simp add: emitMetric_def settles_resolve)
next
  case (Some m)
  then show ?thesis
    using assms [of m]
    by (cases v) (auto simp: emitMetric_def settles_resolve intro!: settles_tryCatch)
qed

lemma observers_hook:
  assumes "observers P cfg"
  shows "hookOf cfg hook_onSend = Some h1 \<Longrightarrow> P (h1 s p)"
    and "hookOf cfg hook_onSuccess = Some h2 \<Longrightarrow> P (h2 s r)"
    and "hookOf cfg hook_onFailure = Some h3 \<Longrightarrow> P (h3 s e)"
    and "hookOf cfg hook_onRetry = Some h4 \<Longrightarrow> P (h4 s n)"
  using assms by (auto simp: observers_def hookOf_def split: option.splits)

lemma observers_metrics:
  assumes "observers P cfg" "metricsAdapter cfg = Some m"
  shows "P (increment m name)" "P (gauge m name x)"
  using assms by (auto simp: observers_def)

lemma settles_hooks:
  assumes "observers settles cfg"
  shows "settles (emitHook (map_option (\<lambda>h. h s p) (hookOf cfg hook_onSend)))"
    and "settles (emitHook (map_option (\<lambda>h. h s r) (hookOf cfg hook_onSuccess)))"
    and "settles (emitHook (map_option (\<lambda>h. h s e) (hookOf cfg hook_onFailure)))"
    and "settles (emitHook (map_option (\<lambda>h. h s n) (hookOf cfg hook_onRetry)))"
  using observers_hook [OF assms] by (auto intro!: settles_emitHook)

lemma settles_metric:
  assumes "observers settles cfg"
  shows "settles (emitMetric (metricsAdapter cfg) metric v)"
  using observers_metrics [OF assms] by (intro settles_emitMetric) auto

lemma settles_Date_now: "settles Date_now"
  by (simp add: settles_def Date_now_def)

lemma settles_randomUUID: "settles randomUUID"
  by (simp add: settles_def randomUUID_def)

lemma settles_calculateNextRetryAt: "settles (calculateNextRetryAt a p r)"
  by (simp add: settles_def calculateNextRetryAt_def)

lemma settles_sendRecover:
  assumes "observers settles cfg"
  shows "settles (sendRecover cfg subscription err)"
  unfolding sendRecover_def
  by (intro settles_andThen settles_hooks settles_metric settles_resolve assms)

lemma returns_sendRecover:
  assumes "observers settles cfg"
  shows "fst (sendRecover cfg subscription err w) =
     Returns \<lparr>s_success = False, s_subscriptionId = sub_id subscription,
              s_error = Some err, s_enqueued = Some False\<rparr>"
proof -
  let ?hook = "emitHook (map_option (\<lambda>h. h subscription err) (hookOf cfg hook_onFailure))"
  let ?metric = "emitMetric (metricsAdapter cfg) ''push.send.error'' None"
  obtain r1 w1 where h: "?hook w = (r1, w1)" by (cases "?hook w")
  have "r1 \<noteq> Hangs" using settles_hooks(3) [OF assms, of subscription err] h
    by (auto simp: settles_def dest: spec [of _ w])
  moreover have "r1 \<noteq> Throws e" for e using neverThrows_emitHook [of "map_option (\<lambda>h. h subscription err) (hookOf cfg hook_onFailure)"] h
    by (auto simp: neverThrows_def dest: spec [of _ w])
  ultimately have r1: "r1 = Returns ()" by (cases r1) auto
  obtain r2 w2 where m: "?metric w1 = (r2, w2)" by (cases "?metric w1")
  have "r2 \<noteq> Hangs" using settles_metric [OF assms, of "''push.send.error''" None] m
    by (auto simp: settles_def dest: spec [of _ w1])
  moreover have "r2 \<noteq> Throws e" for e using neverThrows_emitMetric [of "metricsAdapter cfg" "''push.send.error''" None] m
    by (auto simp: neverThrows_def dest: spec [of _ w1])
  ultimately have r2: "r2 = Returns ()" by (cases r2) auto
  show ?thesis
    using h m r1 r2 by (simp add: sendRecover_def andThen_def resolve_def)
qed

lemma settles_callProvider:
  assumes "settles send"
  shows "settles (callProvider send)"
  unfolding settles_def
proof (intro allI)
  fix s :: "'a world PushCore \<times> 'a world"
  obtain core w where s: "s = (core, w)" by (cases s)
  obtain r w' where sw: "send w = (r, w')" by (cases "send w")
  have r: "r \<noteq> Hangs" using assms sw by (auto simp: settles_def dest: spec [of _ w])
  show "fst (callProvider send s) \<noteq> Hangs"
  proof (cases "circuitBreaker core")
    case None
    then show ?thesis using s sw r by (simp add: callProvider_def inWorld_def)
  next
    case (Some cb)
    then show ?thesis using s sw r
      by (cases "admit (currentTime w) cb"; cases r)
        (auto simp: callProvider_def execute_def split: prod.splits)
  qed
qed

lemma settles_handleSuccess:
  assumes "collaboratorsSettle cfg st"
  shows "settles (handleSuccess cfg st startTime subscription result)"
proof -
  have obs: "observers settles cfg" using assms by (simp add: collaboratorsSettle_def)
  have upd: "settles (updateSubscription st i u)" for i u
    using assms by (simp add: collaboratorsSettle_def)
  show ?thesis
    unfolding handleSuccess_def
    by (intro settles_andThen settles_hooks settles_metric settles_resolve settles_Date_now
        upd obs)
qed

lemma settles_handleFailure:
  assumes "collaboratorsSettle cfg st"
  shows "settles (handleFailure cfg st subscription payload result)"
proof -
  have obs: "observers settles cfg" using assms by (simp add: collaboratorsSettle_def)
  have enq: "settles (enqueueRetry st r)" for r
    using assms by (simp add: collaboratorsSettle_def)
  show ?thesis
    unfolding handleFailure_def Let_def
    by (auto intro!: settles_andThen settles_hooks settles_metric settles_resolve
        settles_Date_now settles_randomUUID settles_calculateNextRetryAt enq obs)
qed

lemma settles_verify: "settles (settle (verifySubscription subscription))"
  by (intro settles_settle) (auto simp: verifySubscription_def split: option.splits)

lemma settles_getProvider: "settles (settle (getProviderAdapter cfg))"
  by (intro settles_settle) (auto simp: getProviderAdapter_def split: option.splits)

lemma settles_sendAttempt:
  assumes "collaboratorsSettle cfg st"
  shows "settles (sendAttempt cfg st subscription payload options)"
proof -
  have obs: "observers settles cfg" using assms by (simp add: collaboratorsSettle_def)
  have lim: "settles (case rateLimiter cfg of Some acquire \<Rightarrow> acquire | None \<Rightarrow> resolve ())"
    using assms by (auto simp: collaboratorsSettle_def settles_resolve split: option.splits)
  have prov: "settles (callProvider (provider subscription payload options))"
    if "getProviderAdapter cfg = Returns provider" for provider
    using that assms
    by (intro settles_callProvider)
      (auto simp: collaboratorsSettle_def getProviderAdapter_def split: option.splits)
  have tail: "settles (andThen (callProvider (provider subscription payload options)) (\<lambda>result.
       if p_success result
       then inWorld (handleSuccess cfg st startTime subscription result)
       else inWorld (handleFailure cfg st subscription payload result)))"
    if "getProviderAdapter cfg = Returns provider" for provider startTime
    using prov [OF that]
    by (auto intro!: settles_andThen settles_inWorld settles_handleSuccess settles_handleFailure assms)
  have step: "settles (andThen (inWorld (settle (getProviderAdapter cfg))) (\<lambda>provider.
     andThen (callProvider (provider subscription payload options)) (\<lambda>result.
       if p_success result
       then inWorld (handleSuccess cfg st startTime subscription result)
       else inWorld (handleFailure cfg st subscription payload result))))" for startTime
    unfolding settles_def
  proof (intro allI)
    fix s :: "'a world PushCore \<times> 'a world"
    obtain core w where s: "s = (core, w)" by (cases s)
    show "fst (andThen (inWorld (settle (getProviderAdapter cfg))) (\<lambda>provider.
     andThen (callProvider (provider subscription payload options)) (\<lambda>result.
       if p_success result
       then inWorld (handleSuccess cfg st startTime subscription result)
       else inWorld (handleFailure cfg st subscription payload result))) s) \<noteq> Hangs"
    proof (cases "getProviderAdapter cfg")
      case (Returns provider)
      then show ?thesis
        using tail [OF Returns, of startTime] s
        by (simp add: andThen_def inWorld_def settle_def settles_def)
    next
      case (Throws e)
      then show ?thesis using s by (simp add: andThen_def inWorld_def settle_def)
    next
      case Hangs
      then show ?thesis by (auto simp: getProviderAdapter_def split: option.splits)
    qed
  qed
  show ?thesis
    unfolding sendAttempt_def
    by (intro settles_andThen settles_inWorld settles_hooks settles_metric settles_Date_now
        settles_verify lim step obs)
qed


lemma observer_returns:
  assumes "neverThrows m" "settles m"
  shows "\<exists>w'. m w = (Returns (), w')"
proof -
  obtain r w' where mw: "m w = (r, w')" by (cases "m w")
  have "r \<noteq> Hangs"
    using assms(2) mw by (auto simp: settles_def dest: spec [of _ w])
  moreover have "r \<noteq> Throws e" for e
    using assms(1) mw by (auto simp: neverThrows_def dest: spec [of _ w])
  ultimately have "r = Returns ()" by (cases r) auto
  then show ?thesis using mw by simp
qed

lemma observer_returns_or_hangs:
  assumes "neverThrows m"
  shows "(\<exists>w'. m w = (Returns (), w')) \<or> (\<exists>w'. m w = (Hangs, w'))"
proof -
  obtain r w' where mw: "m w = (r, w')" by (cases "m w")
  have "r \<noteq> Throws e" for e
    using assms(1) mw by (auto simp: neverThrows_def dest: spec [of _ w])
  then have "r = Returns () \<or> r = Hangs" by (cases r) auto
  then show ?thesis using mw by auto
qed

subsection \<open>The promise of \<open>sendNotification\<close> never rejects\<close>

text \<open>
  Claim C10.  Once the shutting-down check and the configuration check have passed:
  (1) the promise \<open>sendNotification\<close> returns never rejects, whatever the subscription
  and whatever the hooks, the metrics adapter, the rate limiter, the provider, the
  circuit breaker and the storage adapter do; (2) when every collaborator settles, it
  resolves; (3) when anything in the \<open>try\<close> block throws an error (the validation of
  the subscription, the provider, the open breaker, the storage adapter, ...) and the
  observers (hooks and metrics) settle, it resolves to the result with
  \<open>success: false\<close>, that error, and \<open>enqueued: false\<close>.
\<close>

theorem sendNotification_never_rejects:
  assumes "ensureNotShuttingDown core = Returns ()"
    and "validateConfiguration core = Returns (cfg, st)"
  shows "(\<forall>e. fst (sendNotification subscription payload options (core, w)) \<noteq> Throws e)
       \<and> (collaboratorsSettle cfg st \<longrightarrow>
            (\<exists>r. fst (sendNotification subscription payload options (core, w)) = Returns r))
       \<and> (\<forall>err s. observers settles cfg \<and>
            sendAttempt cfg st subscription payload options (core, w) = (Throws err, s) \<longrightarrow>
            fst (sendNotification subscription payload options (core, w)) =
              Returns \<lparr>s_success = False, s_subscriptionId = sub_id subscription,
                       s_error = Some err, s_enqueued = Some False\<rparr>)"
proof (intro conjI allI impI)
  fix e
  show "fst (sendNotification subscription payload options (core, w)) \<noteq> Throws e"
    by (rule never_rejects [OF assms])
next
  assume all: "collaboratorsSettle cfg st"
  then have obs: "observers settles cfg" by (simp add: collaboratorsSettle_def)
  have "settles (tryCatch (sendAttempt cfg st subscription payload options)
       (\<lambda>err. inWorld (sendRecover cfg subscription err)))"
    by (intro settles_tryCatch settles_sendAttempt settles_inWorld settles_sendRecover all obs)
  then have "fst (sendNotification subscription payload options (core, w)) \<noteq> Hangs"
    unfolding sendNotification_checked [OF assms] settles_def by blast
  moreover have "fst (sendNotification subscription payload options (core, w)) \<noteq> Throws e"
    for e by (rule never_rejects [OF assms])
  ultimately show "\<exists>r. fst (sendNotification subscription payload options (core, w)) = Returns r"
    by (cases "fst (sendNotification subscription payload options (core, w))") auto
next
  fix err s
  assume a: "observers settles cfg \<and>
    sendAttempt cfg st subscription payload options (core, w) = (Throws err, s)"
  obtain core' w' where s: "s = (core', w')" by (cases s)
  have "sendNotification subscription payload options (core, w) =
      inWorld (sendRecover cfg subscription err) (core', w')"
    unfolding sendNotification_checked [OF assms] using a s by (simp add: tryCatch_def)
  then show "fst (sendNotification subscription payload options (core, w)) =
      Returns \<lparr>s_success = False, s_subscriptionId = sub_id subscription,
               s_error = Some err, s_enqueued = Some False\<rparr>"
    using returns_sendRecover [of cfg subscription err w'] a
    by (simp add: inWorld_def split: prod.splits)
qed

lemmas example_simps =
  sendNotification_def ensureNotShuttingDown_def validateConfiguration_def
  exampleCore_def exampleConfiguration_def truthy_def tryCatch_def sendAttempt_def andThen_def
  inWorld_def Date_now_def emitHook_def hookOf_def logging_def emitMetric_def resolve_def
  settle_def verifySubscription_def exampleSubscription_def sendRecover_def exampleWorld_def
  getProviderAdapter_def callProvider_def providerReturning_def providerThrowing_def
  delivered_def unavailable_def handleSuccess_def handleFailure_def
  SQLiteStorageAdapter_def sqlite_updateSubscription_def sqlite_getSubscriptionById_def
  sqlite_enqueueRetry_def sqlite_ackRetry_def awaited_def elapse_def
  ensureNotClosed_def noUpdate_def applyUpdate_def rowToSubscription_def reject_def
  execute_def admit_def shouldAttemptReset_def onSuccess_def onFailure_def
  new_CircuitBreaker_def DEFAULT_CONFIG_def effectiveRetryPolicy_def

text \<open>
  Four failures in the example configuration, each returned as a failed result: a
  subscription without endpoint, a provider that throws, an open circuit breaker, and
  a closed database (the provider has delivered, the update of the subscription fails).
\<close>

theorem sendNotification_never_rejects_witness:
  "ensureNotShuttingDown (exampleCore (providerReturning delivered)) = Returns ()
   \<and> validateConfiguration (exampleCore (providerReturning delivered)) =
       Returns (exampleConfiguration (providerReturning delivered), SQLiteStorageAdapter)
   \<and> fst (sendNotification (exampleSubscription\<lparr>endpoint := None\<rparr>) examplePayload noOptions
        (exampleCore (providerReturning delivered), exampleWorld))
      = Returns \<lparr>s_success = False, s_subscriptionId = ''s1'',
          s_error = Some (ValidationError ''Subscription must have an endpoint'' ''endpoint''),
          s_enqueued = Some False\<rparr>
   \<and> fst (sendNotification exampleSubscription examplePayload noOptions
        (exampleCore (providerThrowing (ProviderError ''connection reset'')), exampleWorld))
      = Returns \<lparr>s_success = False, s_subscriptionId = ''s1'',
          s_error = Some (ProviderError ''connection reset''), s_enqueued = Some False\<rparr>
   \<and> fst (sendNotification exampleSubscription examplePayload noOptions
        ((exampleCore (providerReturning delivered))
           \<lparr>circuitBreaker := Some \<lparr>state = Open, failureCount = 5, successCount = 0,
                  lastFailureTime = Some 4000, cb_config = DEFAULT_CONFIG\<rparr>\<rparr>, exampleWorld))
      = Returns \<lparr>s_success = False, s_subscriptionId = ''s1'',
          s_error = Some (CircuitBreakerOpenError ''Circuit breaker is open'' Open 5 (Some 4000)),
          s_enqueued = Some False\<rparr>
   \<and> fst (sendNotification exampleSubscription examplePayload noOptions
        (exampleCore (providerReturning delivered),
         exampleWorld\<lparr>db := (db exampleWorld)\<lparr>closed := True\<rparr>\<rparr>))
      = Returns \<lparr>s_success = False, s_subscriptionId = ''s1'',
          s_error = Some (StorageError ''Database connection is closed''),
          s_enqueued = Some False\<rparr>"
proof -
  have checks:
    "ensureNotShuttingDown (exampleCore (providerReturning delivered)) = Returns ()"
    "validateConfiguration (exampleCore (providerReturning delivered)) =
       Returns (exampleConfiguration (providerReturning delivered), SQLiteStorageAdapter)"
    by (simp_all add: ensureNotShuttingDown_def validateConfiguration_def exampleCore_def
        exampleConfiguration_def truthy_def)
  have malformed:
    "fst (sendNotification (exampleSubscription\<lparr>endpoint := None\<rparr>) examplePayload noOptions
        (exampleCore (providerReturning delivered), exampleWorld))
      = Returns \<lparr>s_success = False, s_subscriptionId = ''s1'',
          s_error = Some (ValidationError ''Subscription must have an endpoint'' ''endpoint''),
          s_enqueued = Some False\<rparr>"
    using sendNotification_never_rejects [OF checks,
        of "exampleSubscription\<lparr>endpoint := None\<rparr>" examplePayload noOptions exampleWorld]
    by (simp add: example_simps)
  have provider:
    "fst (sendNotification exampleSubscription examplePayload noOptions
        (exampleCore (providerThrowing (ProviderError ''connection reset'')), exampleWorld))
      = Returns \<lparr>s_success = False, s_subscriptionId = ''s1'',
          s_error = Some (ProviderError ''connection reset''), s_enqueued = Some False\<rparr>"
    by (simp add: example_simps)
  have breaker:
    "fst (sendNotification exampleSubscription examplePayload noOptions
        ((exampleCore (providerReturning delivered))
           \<lparr>circuitBreaker := Some \<lparr>state = Open, failureCount = 5, successCount = 0,
                  lastFailureTime = Some 4000, cb_config = DEFAULT_CONFIG\<rparr>\<rparr>, exampleWorld))
      = Returns \<lparr>s_success = False, s_subscriptionId = ''s1'',
          s_error = Some (CircuitBreakerOpenError ''Circuit breaker is open'' Open 5 (Some 4000)),
          s_enqueued = Some False\<rparr>"
    by (simp add: example_simps)
  have storage:
    "fst (sendNotification exampleSubscription examplePayload noOptions
        (exampleCore (providerReturning delivered),
         exampleWorld\<lparr>db := (db exampleWorld)\<lparr>closed := True\<rparr>\<rparr>))
      = Returns \<lparr>s_success = False, s_subscriptionId = ''s1'',
          s_error = Some (StorageError ''Database connection is closed''),
          s_enqueued = Some False\<rparr>"
    by (simp add: example_simps)
  from checks malformed provider breaker storage show ?thesis by blast
qed

subsection \<open>A malformed subscription\<close>

lemma verifySubscription_malformed:
  assumes "\<not> truthy (endpoint subscription) \<or> keys subscription = None \<or>
     (\<exists>k. keys subscription = Some k \<and> (\<not> truthy (p256dh k) \<or> \<not> truthy (auth k)))"
  shows "\<exists>msg field. verifySubscription subscription = Throws (ValidationError msg field)"
  using assms by (auto simp: verifySubscription_def split: option.splits)

lemma sendNotification_invalid:
  assumes "ensureNotShuttingDown core = Returns ()"
    and "validateConfiguration core = Returns (cfg, st)"
    and "verifySubscription subscription = Throws err"
  shows "sendNotification subscription payload options (core, w) =
     inWorld
       (andThen (emitHook (map_option (\<lambda>h. h subscription payload) (hookOf cfg hook_onSend)))
          (\<lambda>_.
        andThen (emitMetric (metricsAdapter cfg) ''push.send.attempt'' None) (\<lambda>_.
        sendRecover cfg subscription err))) (core, w)"
proof -
  let ?hook = "emitHook (map_option (\<lambda>h. h subscription payload) (hookOf cfg hook_onSend))"
  let ?metric = "emitMetric (metricsAdapter cfg) ''push.send.attempt'' None"
  consider w1 where "?hook w = (Hangs, w1)"
    | w1 w2 where "?hook w = (Returns (), w1)" "?metric w1 = (Hangs, w2)"
    | w1 w2 where "?hook w = (Returns (), w1)" "?metric w1 = (Returns (), w2)"
    using observer_returns_or_hangs [OF neverThrows_emitHook, of _ w]
      observer_returns_or_hangs [OF neverThrows_emitMetric]
    by metis
  then show ?thesis
  proof cases
    case 1
    then show ?thesis
      unfolding sendNotification_checked [OF assms(1,2)]
      by (simp add: tryCatch_def sendAttempt_def andThen_def inWorld_def Date_now_def)
  next
    case 2
    then show ?thesis
      unfolding sendNotification_checked [OF assms(1,2)]
      by (simp add: tryCatch_def sendAttempt_def andThen_def inWorld_def Date_now_def)
  next
    case 3
    then show ?thesis
      unfolding sendNotification_checked [OF assms(1,2)]
      using assms(3)
      by (simp add: tryCatch_def sendAttempt_def andThen_def inWorld_def Date_now_def settle_def)
  qed
qed

text \<open>
  Claim C1, as the code has it.  For a subscription whose endpoint is missing, or whose
  keys are missing or lack \<open>p256dh\<close> or \<open>auth\<close>, and once the shutting-down and
  configuration checks have passed: the validation fails with a \<open>ValidationError\<close>,
  and \<open>sendNotification\<close> is the \<open>onSend\<close> hook, the attempt metric and then the
  \<open>catch\<close> block run on that error (the \<open>onFailure\<close> hook, the error metric, the failed
  result).  So the rate limiter, the circuit breaker, the provider and the storage
  adapter are not called and the orchestrator is unchanged; the promise does not
  reject; and when hooks and metrics settle it resolves to the result with
  \<open>success: false\<close>, the \<open>ValidationError\<close> and \<open>enqueued: false\<close>.
\<close>

theorem sendNotification_malformed_subscription:
  assumes "ensureNotShuttingDown core = Returns ()"
    and "validateConfiguration core = Returns (cfg, st)"
    and "\<not> truthy (endpoint subscription) \<or> keys subscription = None \<or>
     (\<exists>k. keys subscription = Some k \<and> (\<not> truthy (p256dh k) \<or> \<not> truthy (auth k)))"
  shows "\<exists>msg field.
     verifySubscription subscription = Throws (ValidationError msg field)
     \<and> sendNotification subscription payload options (core, w) =
         inWorld
           (andThen (emitHook
              (map_option (\<lambda>h. h subscription payload) (hookOf cfg hook_onSend))) (\<lambda>_.
            andThen (emitMetric (metricsAdapter cfg) ''push.send.attempt'' None) (\<lambda>_.
            sendRecover cfg subscription (ValidationError msg field)))) (core, w)
     \<and> (\<forall>e. fst (sendNotification subscription payload options (core, w)) \<noteq> Throws e)
     \<and> (observers settles cfg \<longrightarrow>
          fst (sendNotification subscription payload options (core, w)) =
            Returns \<lparr>s_success = False, s_subscriptionId = sub_id subscription,
                     s_error = Some (ValidationError msg field), s_enqueued = Some False\<rparr>)"
proof -
  from verifySubscription_malformed [OF assms(3)]
  obtain msg field where v: "verifySubscription subscription = Throws (ValidationError msg field)"
    by blast
  let ?err = "ValidationError msg field"
  let ?hook = "emitHook (map_option (\<lambda>h. h subscription payload) (hookOf cfg hook_onSend))"
  let ?metric = "emitMetric (metricsAdapter cfg) ''push.send.attempt'' None"
  have eq: "sendNotification subscription payload options (core, w) =
      inWorld (andThen ?hook (\<lambda>_. andThen ?metric (\<lambda>_. sendRecover cfg subscription ?err)))
        (core, w)"
    by (rule sendNotification_invalid [OF assms(1,2) v])
  have nothrow: "fst (sendNotification subscription payload options (core, w)) \<noteq> Throws e" for e
    by (rule never_rejects [OF assms(1,2)])
  have res: "fst (sendNotification subscription payload options (core, w)) =
      Returns \<lparr>s_success = False, s_subscriptionId = sub_id subscription,
               s_error = Some ?err, s_enqueued = Some False\<rparr>"
    if obs: "observers settles cfg"
  proof -
    obtain w1 where h: "?hook w = (Returns (), w1)"
      using observer_returns [OF neverThrows_emitHook settles_hooks(1) [OF obs]] by blast
    obtain w2 where m: "?metric w1 = (Returns (), w2)"
      using observer_returns [OF neverThrows_emitMetric settles_metric [OF obs]] by blast
    show ?thesis
      unfolding eq using h m returns_sendRecover [OF obs, of subscription ?err w2]
      by (auto simp: inWorld_def andThen_def split: prod.splits)
  qed
  from v eq nothrow res show ?thesis by blast
qed

text \<open>
  In the example configuration a subscription without endpoint is answered with a
  failed result, after the \<open>onSend\<close> and \<open>onFailure\<close> hooks have run; the database is
  as it was.
\<close>

theorem sendNotification_malformed_subscription_witness:
  "ensureNotShuttingDown (exampleCore (providerReturning delivered)) = Returns ()
   \<and> validateConfiguration (exampleCore (providerReturning delivered)) =
       Returns (exampleConfiguration (providerReturning delivered), SQLiteStorageAdapter)
   \<and> \<not> truthy (endpoint (exampleSubscription\<lparr>endpoint := None\<rparr>))
   \<and> sendNotification (exampleSubscription\<lparr>endpoint := None\<rparr>) examplePayload noOptions
        (exampleCore (providerReturning delivered), exampleWorld)
      = (Returns \<lparr>s_success = False, s_subscriptionId = ''s1'',
            s_error = Some (ValidationError ''Subscription must have an endpoint'' ''endpoint''),
            s_enqueued = Some False\<rparr>,
         (exampleCore (providerReturning delivered),
          exampleWorld\<lparr>outside := [''onSend'', ''onFailure'']\<rparr>))"
proof -
  have checks:
    "ensureNotShuttingDown (exampleCore (providerReturning delivered)) = Returns ()"
    "validateConfiguration (exampleCore (providerReturning delivered)) =
       Returns (exampleConfiguration (providerReturning delivered), SQLiteStorageAdapter)"
    by (simp_all add: ensureNotShuttingDown_def validateConfiguration_def exampleCore_def
        exampleConfiguration_def truthy_def)
  have bad: "\<not> truthy (endpoint (exampleSubscription\<lparr>endpoint := None\<rparr>))"
    by (simp add: truthy_def)
  have "sendNotification (exampleSubscription\<lparr>endpoint := None\<rparr>) examplePayload noOptions
        (exampleCore (providerReturning delivered), exampleWorld)
      = (Returns \<lparr>s_success = False, s_subscriptionId = ''s1'',
            s_error = Some (ValidationError ''Subscription must have an endpoint'' ''endpoint''),
            s_enqueued = Some False\<rparr>,
         (exampleCore (providerReturning delivered),
          exampleWorld\<lparr>outside := [''onSend'', ''onFailure'']\<rparr>))"
    using sendNotification_malformed_subscription [OF checks,
        of "exampleSubscription\<lparr>endpoint := None\<rparr>" examplePayload noOptions exampleWorld]
    by (simp add: example_simps)
  with checks bad show ?thesis by blast
qed

text \<open>
  Claim C1 as stated fails: for the subscription without endpoint the promise does not
  reject with a \<open>ValidationError\<close> but resolves, and the \<open>onSend\<close> hook has been invoked
  before the validation (and the \<open>onFailure\<close> hook after it).
\<close>

theorem sendNotification_malformed_counterexample:
  "fst (sendNotification (exampleSubscription\<lparr>endpoint := None\<rparr>) examplePayload noOptions
        (exampleCore (providerReturning delivered), exampleWorld))
      = Returns \<lparr>s_success = False, s_subscriptionId = ''s1'',
          s_error = Some (ValidationError ''Subscription must have an endpoint'' ''endpoint''),
          s_enqueued = Some False\<rparr>
   \<and> outside (snd (snd (sendNotification (exampleSubscription\<lparr>endpoint := None\<rparr>)
        examplePayload noOptions
        (exampleCore (providerReturning delivered), exampleWorld))))
      = [''onSend'', ''onFailure'']"
  by (simp add: example_simps)


section \<open>Properties that involve the database\<close>

subsection \<open>Observers and the SQLite adapter\<close>

lemma keepsDatabase_resolve: "keepsDatabase (resolve a)"
  by (simp add: keepsDatabase_def resolve_def)

lemma keepsDatabase_tryCatch_resolve:
  assumes "keepsDatabase m"
  shows "keepsDatabase (tryCatch m (\<lambda>err. resolve a))"
  unfolding keepsDatabase_def
proof
  fix w
  obtain r w' where mw: "m w = (r, w')" by (cases "m w")
  then have "db w' = db w" using assms by (auto simp: keepsDatabase_def dest: spec [of _ w])
  then show "db (snd (tryCatch m (\<lambda>err. resolve a) w)) = db w"
    using mw by (cases r) (simp_all add: tryCatch_def resolve_def)
qed


lemma keepsDatabase_emitMetric:
  assumes "\<And>m. adapter = Some m \<Longrightarrow>
    (\<forall>name. keepsDatabase (increment m name)) \<and> (\<forall>name x. keepsDatabase (gauge m name x))"
  shows "keepsDatabase (emitMetric adapter metric v)"
proof (cases adapter)
  case None
  then show ?thesis by (simp add: emitMetric_def keepsDatabase_resolve)
next
  case (Some m)
  then show ?thesis
    using assms [of m]
    by (cases v) (auto simp: emitMetric_def intro!: keepsDatabase_tryCatch_resolve)
qed



text \<open>An observer that settles and keeps the database returns, in a world with the same database.\<close>

lemma observer_step:
  assumes "neverThrows m" "settles m" "keepsDatabase m"
  shows "\<exists>w'. m w = (Returns (), w') \<and> db w' = db w"
proof -
  obtain w' where "m w = (Returns (), w')"
    using observer_returns [OF assms(1,2)] by blast
  moreover have "db (snd (m w)) = db w" using assms(3) by (simp add: keepsDatabase_def)
  ultimately show ?thesis by simp
qed



text \<open>While the adapter is awaited the clock moves forward, and nothing else changes.\<close>

lemma elapse_db: "db (elapse w) = db w"
  by (simp add: elapse_def split: list.split)

lemma elapse_forward: "currentTime w \<le> currentTime (elapse w)"
  by (simp add: elapse_def split: list.split)

lemma elapse_update_db: "elapse (w\<lparr>db := d\<rparr>) = (elapse w)\<lparr>db := d\<rparr>"
  by (simp add: elapse_def split: list.split)

lemma sqlite_getSubscriptionById_open:
  assumes "\<not> closed (db w)"
  shows "sqlite_getSubscriptionById ident w =
     (Returns (map_option rowToSubscription (subscriptions (db w) ident)), elapse w)"
  using assms
  by (simp add: sqlite_getSubscriptionById_def awaited_def andThen_def ensureNotClosed_def)

text \<open>
  \<open>updateSubscription\<close> on a stored row: the row is stamped with the time after the
  first \<open>getSubscriptionById\<close> has answered.
\<close>

lemma sqlite_updateSubscription_found:
  assumes "\<not> closed (db w)" "subscriptions (db w) ident = Some row"
  shows "\<exists>w'. sqlite_updateSubscription ident updates w =
       (Returns (rowToSubscription (applyUpdate (currentTime (elapse w)) updates row)), w')
     \<and> db w' = (db w)\<lparr>subscriptions :=
           (subscriptions (db w))(ident \<mapsto> applyUpdate (currentTime (elapse w)) updates row)\<rparr>"
proof -
  let ?row = "applyUpdate (currentTime (elapse w)) updates row"
  let ?w1 = "(elapse w)\<lparr>db := (db w)\<lparr>subscriptions := (subscriptions (db w))(ident \<mapsto> ?row)\<rparr>\<rparr>"
  have first: "sqlite_getSubscriptionById ident w = (Returns (Some (rowToSubscription row)), elapse w)"
    using assms by (simp add: sqlite_getSubscriptionById_open)
  have "\<not> closed (db ?w1)" "subscriptions (db ?w1) ident = Some ?row"
    using assms by simp_all
  then have second: "sqlite_getSubscriptionById ident ?w1 = (Returns (Some (rowToSubscription ?row)), elapse ?w1)"
    by (simp add: sqlite_getSubscriptionById_open)
  have "sqlite_updateSubscription ident updates w =
      (Returns (rowToSubscription ?row), elapse (elapse ?w1))"
    using assms first second
    by (simp add: sqlite_updateSubscription_def awaited_def andThen_def ensureNotClosed_def
        Let_def elapse_db)
  moreover have "db (elapse (elapse ?w1)) =
      (db w)\<lparr>subscriptions := (subscriptions (db w))(ident \<mapsto> ?row)\<rparr>"
    by (simp add: elapse_db)
  ultimately show ?thesis by blast
qed

lemma sqlite_ackRetry_open:
  assumes "\<not> closed (db w)"
  shows "\<exists>w'. sqlite_ackRetry retryId w = (Returns (), w')
     \<and> db w' = (db w)\<lparr>retry_queue := filter (\<lambda>r. r_id r \<noteq> retryId) (retry_queue (db w))\<rparr>
     \<and> currentTime w \<le> currentTime w'"
proof -
  let ?w1 = "w\<lparr>db := (db w)\<lparr>retry_queue := filter (\<lambda>r. r_id r \<noteq> retryId) (retry_queue (db w))\<rparr>\<rparr>"
  have "sqlite_ackRetry retryId w = (Returns (), elapse ?w1)"
    using assms by (simp add: sqlite_ackRetry_def awaited_def andThen_def ensureNotClosed_def)
  moreover have "db (elapse ?w1) = db ?w1" by (rule elapse_db)
  moreover have "currentTime ?w1 \<le> currentTime (elapse ?w1)" by (rule elapse_forward)
  ultimately show ?thesis by simp
qed











subsection \<open>The retry worker at the end of the retries\<close>

lemma worker_metric_step:
  assumes "\<forall>m. adapter = Some m \<longrightarrow>
      (\<forall>name. settles (increment m name) \<and> keepsDatabase (increment m name)) \<and>
      (\<forall>name v. settles (gauge m name v) \<and> keepsDatabase (gauge m name v))"
  shows "\<exists>w'. emitMetric adapter metric v w = (Returns (), w') \<and> db w' = db w"
  using assms
  by (intro observer_step neverThrows_emitMetric settles_emitMetric keepsDatabase_emitMetric)
    auto

lemma processRetry_exhausted_row:
  assumes st: "w_storage worker = SQLiteStorageAdapter"
    and metrics: "\<forall>m. w_metricsAdapter worker = Some m \<longrightarrow>
      (\<forall>name. settles (increment m name) \<and> keepsDatabase (increment m name)) \<and>
      (\<forall>name v. settles (gauge m name v) \<and> keepsDatabase (gauge m name v))"
    and attempt: "r_attempt retry = maxRetries (w_retryPolicy worker)"
    and opened: "\<not> closed (db w)"
    and row: "subscriptions (db w) (r_subscriptionId retry) = Some row"
    and ident: "sub_id row = r_subscriptionId retry"
    and provider: "\<forall>w. \<exists>r w'.
        w_provider worker (rowToSubscription row) (r_payload retry) noOptions w = (Returns r, w')
        \<and> \<not> p_success r \<and> p_shouldRetry r \<and> db w' = db w"
  shows "\<exists>w' t. processRetry retry (worker, w) =
        (Returns (), (worker\<lparr>processing := processing worker - {r_id retry}\<rparr>, w'))
     \<and> db w' = (db w)\<lparr>
          retry_queue := filter (\<lambda>r. r_id r \<noteq> r_id retry) (retry_queue (db w)),
          subscriptions := (subscriptions (db w))(r_subscriptionId retry \<mapsto>
            row\<lparr>updatedAt := t, status := expired, failedCount := failedCount row + 1\<rparr>)\<rparr>"
proof -
  let ?sub = "rowToSubscription row"
  let ?queue = "filter (\<lambda>r. r_id r \<noteq> r_id retry) (retry_queue (db w))"
  obtain w1 where m1: "emitMetric (w_metricsAdapter worker) ''worker.retry.processing'' None w
      = (Returns (), w1)" "db w1 = db w"
    using worker_metric_step [OF metrics] by blast
  have get: "getSubscriptionById (w_storage worker) (r_subscriptionId retry) w1
      = (Returns (Some ?sub), elapse w1)"
    using sqlite_getSubscriptionById_open [of w1 "r_subscriptionId retry"] opened row m1(2)
    by (simp add: st SQLiteStorageAdapter_def)
  obtain r w2 where p: "w_provider worker ?sub (r_payload retry) noOptions (elapse w1)
      = (Returns r, w2)"
      "\<not> p_success r" "p_shouldRetry r" "db w2 = db (elapse w1)"
    using provider by blast
  have dbw2: "db w2 = db w" using p(4) m1(2) by (simp add: elapse_db)
  have no: "\<not> shouldRetry r (r_attempt retry) (maxRetries (w_retryPolicy worker))"
    using attempt by (simp add: shouldRetry_def)
  obtain w3 where ack: "ackRetry (w_storage worker) (r_id retry) w2 = (Returns (), w3)"
    and dbw3: "db w3 = (db w)\<lparr>retry_queue := ?queue\<rparr>"
    using sqlite_ackRetry_open [of w2 "r_id retry"] opened dbw2
    by (auto simp: st SQLiteStorageAdapter_def)
  let ?u = "noUpdate\<lparr>u_status := Some expired, u_failedCount := Some (failedCount ?sub + 1)\<rparr>"
  let ?row = "applyUpdate (currentTime (elapse w3)) ?u row"
  have sub_id: "sub_id ?sub = r_subscriptionId retry"
    using ident by (simp add: rowToSubscription_def)
  have "\<not> closed (db w3)" "subscriptions (db w3) (sub_id ?sub) = Some row"
    using opened row dbw3 sub_id by simp_all
  then obtain w4 where upd: "updateSubscription (w_storage worker) (sub_id ?sub) ?u w3
      = (Returns (rowToSubscription ?row), w4)"
    and dbw4: "db w4 = (db w3)\<lparr>subscriptions := (subscriptions (db w3))(sub_id ?sub \<mapsto> ?row)\<rparr>"
    using sqlite_updateSubscription_found [of w3 "sub_id ?sub" row ?u]
    by (auto simp: st SQLiteStorageAdapter_def)
  obtain w5 where m2: "emitMetric (w_metricsAdapter worker) ''worker.retry.max_retries_exceeded''
      None w4 = (Returns (), w5)" "db w5 = db w4"
    using worker_metric_step [OF metrics] by blast
  have body: "processAttempt worker retry w = (Returns (), w5)"
    using m1(1) get p(1,2) no ack upd m2(1)
    by (simp add: processAttempt_def andThen_def)
  have res: "processRetry retry (worker, w) =
        (Returns (), (worker\<lparr>processing := processing worker - {r_id retry}\<rparr>, w5))"
    using body by (simp add: processRetry_def tryCatch_def Let_def)
  have "?row = row\<lparr>updatedAt := currentTime (elapse w3), status := expired,
      failedCount := failedCount row + 1\<rparr>"
    by (simp add: applyUpdate_def noUpdate_def rowToSubscription_def)
  then have "db w5 = (db w)\<lparr>
          retry_queue := ?queue,
          subscriptions := (subscriptions (db w))(r_subscriptionId retry \<mapsto>
            row\<lparr>updatedAt := currentTime (elapse w3), status := expired,
                failedCount := failedCount row + 1\<rparr>)\<rparr>"
    using m2(2) dbw4 dbw3 sub_id by simp
  with res show ?thesis by blast
qed


text \<open>
  Claim C9.  The worker processes an entry whose attempt equals \<open>maxRetries\<close>; its
  storage is the (open) SQLite database, which holds the owning subscription; the
  metrics adapter, if any, settles and leaves the database alone; the provider returns
  a failure with \<open>shouldRetry: true\<close>, whatever its status code.  Then \<open>processRetry\<close>
  resolves, the entry is acknowledged (no entry with its id is left in the queue), no
  entry is added (the queue is the old one without the acknowledged entry), the
  subscription's status is \<open>expired\<close> and its \<open>failedCount\<close> is one more than
  before; the entry's id is no longer in the worker's \<open>processing\<close> set.
\<close>

theorem processRetry_retries_exhausted:
  assumes "w_storage worker = SQLiteStorageAdapter"
    and "\<forall>m. w_metricsAdapter worker = Some m \<longrightarrow>
      (\<forall>name. settles (increment m name) \<and> keepsDatabase (increment m name)) \<and>
      (\<forall>name v. settles (gauge m name v) \<and> keepsDatabase (gauge m name v))"
    and "r_attempt retry = maxRetries (w_retryPolicy worker)"
    and "\<not> closed (db w)"
    and "subscriptions (db w) (r_subscriptionId retry) = Some row"
    and "sub_id row = r_subscriptionId retry"
    and "\<forall>w. \<exists>r w'.
        w_provider worker (rowToSubscription row) (r_payload retry) noOptions w = (Returns r, w')
        \<and> \<not> p_success r \<and> p_shouldRetry r \<and> db w' = db w"
  shows "\<exists>worker' w' row'.
      processRetry retry (worker, w) = (Returns (), (worker', w'))
      \<and> r_id retry \<notin> r_id ` set (retry_queue (db w'))
      \<and> retry_queue (db w') = filter (\<lambda>r. r_id r \<noteq> r_id retry) (retry_queue (db w))
      \<and> subscriptions (db w') (r_subscriptionId retry) = Some row'
      \<and> status row' = expired
      \<and> failedCount row' = failedCount row + 1
      \<and> r_id retry \<notin> processing worker'"
proof -
  from processRetry_exhausted_row [OF assms]
  obtain w' t where
    res: "processRetry retry (worker, w) =
        (Returns (), (worker\<lparr>processing := processing worker - {r_id retry}\<rparr>, w'))"
    and dbw: "db w' = (db w)\<lparr>
          retry_queue := filter (\<lambda>r. r_id r \<noteq> r_id retry) (retry_queue (db w)),
          subscriptions := (subscriptions (db w))(r_subscriptionId retry \<mapsto>
            row\<lparr>updatedAt := t, status := expired, failedCount := failedCount row + 1\<rparr>)\<rparr>"
    by blast
  let ?row = "row\<lparr>updatedAt := t, status := expired, failedCount := failedCount row + 1\<rparr>"
  have "r_id retry \<notin> r_id ` set (retry_queue (db w'))"
    and "retry_queue (db w') = filter (\<lambda>r. r_id r \<noteq> r_id retry) (retry_queue (db w))"
    and "subscriptions (db w') (r_subscriptionId retry) = Some ?row"
    unfolding dbw by auto
  moreover have "status ?row = expired" "failedCount ?row = failedCount row + 1"
    by simp_all
  moreover have "r_id retry \<notin> processing (worker\<lparr>processing := processing worker - {r_id retry}\<rparr>)"
    by simp
  ultimately show ?thesis using res by blast
qed

text \<open>
  The example worker and entry, with the entry in the queue at time 5000: afterwards
  the queue is empty and subscription \<open>s1\<close> is expired with four failures on record.
\<close>

theorem processRetry_retries_exhausted_witness:
  "r_attempt exampleRetry = maxRetries (w_retryPolicy exampleWorker)
   \<and> fst (processRetry exampleRetry
        (exampleWorker,
         exampleWorld\<lparr>db := (db exampleWorld)\<lparr>retry_queue := [exampleRetry]\<rparr>\<rparr>)) = Returns ()
   \<and> db (snd (snd (processRetry exampleRetry
        (exampleWorker,
         exampleWorld\<lparr>db := (db exampleWorld)\<lparr>retry_queue := [exampleRetry]\<rparr>\<rparr>))))
      = \<lparr>subscriptions =
           [''s1'' \<mapsto> exampleSubscription\<lparr>updatedAt := 5000, status := expired,
                                            failedCount := 4\<rparr>],
         retry_queue = [], closed = False\<rparr>"
proof -
  let ?w = "exampleWorld\<lparr>db := (db exampleWorld)\<lparr>retry_queue := [exampleRetry]\<rparr>\<rparr>"
  have st: "w_storage exampleWorker = SQLiteStorageAdapter"
    by (simp add: exampleWorker_def)
  have metrics: "\<forall>m. w_metricsAdapter exampleWorker = Some m \<longrightarrow>
      (\<forall>name. settles (increment m name) \<and> keepsDatabase (increment m name)) \<and>
      (\<forall>name v. settles (gauge m name v) \<and> keepsDatabase (gauge m name v))"
    by (simp add: exampleWorker_def)
  have attempt: "r_attempt exampleRetry = maxRetries (w_retryPolicy exampleWorker)"
    by (simp add: exampleWorker_def exampleRetry_def)
  have opened: "\<not> closed (db ?w)"
    by (simp add: exampleWorld_def)
  have row: "subscriptions (db ?w) (r_subscriptionId exampleRetry) = Some exampleSubscription"
    by (simp add: exampleWorld_def exampleRetry_def)
  have ident: "sub_id exampleSubscription = r_subscriptionId exampleRetry"
    by (simp add: exampleSubscription_def exampleRetry_def)
  have provider: "\<forall>w. \<exists>r w'.
        w_provider exampleWorker (rowToSubscription exampleSubscription)
          (r_payload exampleRetry) noOptions w = (Returns r, w')
        \<and> \<not> p_success r \<and> p_shouldRetry r \<and> db w' = db w"
    by (simp add: exampleWorker_def providerReturning_def unavailable_def)
  have result: "fst (processRetry exampleRetry (exampleWorker, ?w)) = Returns ()"
    using processRetry_retries_exhausted [OF st metrics attempt opened row ident provider]
    by auto
  have stored: "db (snd (snd (processRetry exampleRetry (exampleWorker, ?w))))
      = \<lparr>subscriptions =
           [''s1'' \<mapsto> exampleSubscription\<lparr>updatedAt := 5000, status := expired,
                                            failedCount := 4\<rparr>],
         retry_queue = [], closed = False\<rparr>"
    by (simp add: example_simps processRetry_def processAttempt_def processRecover_def
        shouldRetry_def exampleWorker_def exampleRetry_def noOptions_def Let_def)
  from attempt result stored show ?thesis by blast
qed


end
